theory Spec2Isabelle
  imports Complex_Main "HOL-Library.Word"
begin

unbundle bit_operations_syntax

section \<open>Python strings\<close>

text \<open>
  A Python \<open>str\<close> is modelled as an Isabelle \<open>string\<close> whose characters are the
  code points 0..255 (the Latin-1 part of Unicode); \<open>ord\<close> reads a code point.
  The character classes below are Python's on that range: \<open>str.isspace\<close> (which is
  also what \<open>\s\<close> matches in a \<open>str\<close> pattern), the decimal digits of \<open>\d\<close>, and
  \<open>str.lower\<close>.
\<close>

definition ord :: "char \<Rightarrow> nat" where
  "ord c = of_char c"

definition is_space :: "char \<Rightarrow> bool" where
  "is_space c = (let n = ord c in (9 \<le> n \<and> n \<le> 13) \<or> (28 \<le> n \<and> n \<le> 32) \<or> n = 133 \<or> n = 160)"

definition is_digit :: "char \<Rightarrow> bool" where
  "is_digit c = (let n = ord c in 48 \<le> n \<and> n \<le> 57)"

definition lower_char :: "char \<Rightarrow> char" where
  "lower_char c = (let n = ord c in
     if (65 \<le> n \<and> n \<le> 90) \<or> (192 \<le> n \<and> n \<le> 222 \<and> n \<noteq> 215) then char_of (n + 32) else c)"

definition lower :: "string \<Rightarrow> string" where
  "lower s = map lower_char s"

definition is_word :: "char \<Rightarrow> bool" where
  "is_word c = (let n = ord c in
     (48 \<le> n \<and> n \<le> 57) \<or> (65 \<le> n \<and> n \<le> 90) \<or> n = 95 \<or> (97 \<le> n \<and> n \<le> 122)
     \<or> n = 170 \<or> n = 178 \<or> n = 179 \<or> n = 181 \<or> n = 185 \<or> n = 186
     \<or> (188 \<le> n \<and> n \<le> 190) \<or> (192 \<le> n \<and> n \<le> 214) \<or> (216 \<le> n \<and> n \<le> 246)
     \<or> (248 \<le> n \<and> n \<le> 255))"

text \<open>\<open>s.strip(chars)\<close>: the leading and trailing characters of a class removed.\<close>

definition strip_chars :: "(char \<Rightarrow> bool) \<Rightarrow> string \<Rightarrow> string" where
  "strip_chars P s = rev (dropWhile P (rev (dropWhile P s)))"

definition strip :: "string \<Rightarrow> string" where
  "strip s = strip_chars is_space s"

text \<open>
  \<open>re.sub(r"[class]+", c, s)\<close>: every maximal run of characters of a class becomes
  the one character \<open>c\<close>.
\<close>

fun sub_runs_from :: "(char \<Rightarrow> bool) \<Rightarrow> char \<Rightarrow> bool \<Rightarrow> string \<Rightarrow> string" where
  "sub_runs_from P r in_run [] = []"
| "sub_runs_from P r in_run (c # cs) =
     (if P c then (if in_run then sub_runs_from P r True cs
                   else r # sub_runs_from P r True cs)
      else c # sub_runs_from P r False cs)"

definition sub_runs :: "(char \<Rightarrow> bool) \<Rightarrow> char \<Rightarrow> string \<Rightarrow> string" where
  "sub_runs P r s = sub_runs_from P r False s"

definition collapse_ws :: "string \<Rightarrow> string" where
  "collapse_ws s = sub_runs is_space (CHR '' '') s"

text \<open>\<open>norm_ws\<close> of the ingest scripts: \<open>re.sub(r"\s+", " ", s).strip()\<close>.\<close>

definition norm_ws :: "string \<Rightarrow> string" where
  "norm_ws s = strip (collapse_ws s)"

text \<open>\<open>s.split()\<close>: the maximal runs of non-whitespace; \<open>sep.join(parts)\<close>.\<close>

fun split_from :: "string \<Rightarrow> string \<Rightarrow> string list" where
  "split_from word [] = (if word = [] then [] else [word])"
| "split_from word (c # cs) =
     (if is_space c then (if word = [] then split_from [] cs else word # split_from [] cs)
      else split_from (word @ [c]) cs)"

definition split_ws :: "string \<Rightarrow> string list" where
  "split_ws s = split_from [] s"

fun join :: "string \<Rightarrow> string list \<Rightarrow> string" where
  "join sep [] = []"
| "join sep [x] = x"
| "join sep (x # y # ys) = x @ sep @ join sep (y # ys)"

text \<open>The truth value of a string, and \<open>x or None\<close>.\<close>

definition or_none :: "string \<Rightarrow> string option" where
  "or_none s = (if s = [] then None else Some s)"

definition or_none_opt :: "string option \<Rightarrow> string option" where
  "or_none_opt v = (case v of None \<Rightarrow> None | Some s \<Rightarrow> or_none s)"

text \<open>SQL \<open>COALESCE(a, b)\<close>.\<close>

definition coalesce :: "'a option \<Rightarrow> 'a option \<Rightarrow> 'a option" where
  "coalesce a b = (case a of None \<Rightarrow> b | Some x \<Rightarrow> Some x)"

section \<open>Windowed staleness of clinic appointments\<close>

text \<open>
  \<open>ingest_clinichq_upcoming_appointments.py\<close>. A stored appointment is a row of
  \<open>clinichq_upcoming_appointments\<close>; the record is extensible, so the columns the
  staleness pass never names are the \<open>more\<close> part. Dates are day ordinals
  (\<open>date.toordinal()\<close>), nullable columns are options, \<open>NOW()\<close> is a parameter.
\<close>

record appointment =
  ap_source_pk :: string
  ap_appt_date :: "int option"
  ap_last_seen_run_id :: "string option"
  ap_is_current :: "bool option"
  ap_stale_at :: "nat option"

text \<open>
  The \<open>WHERE\<close> clause of \<open>mark_stale_in_window\<close>; a comparison with \<open>NULL\<close> is not
  true, so a row with a \<open>NULL\<close> date or \<open>NULL\<close> \<open>is_current\<close> is not selected.
\<close>

definition stale_where :: "string \<Rightarrow> int \<Rightarrow> int \<Rightarrow> 'a appointment_scheme \<Rightarrow> bool" where
  "stale_where run_id coverage_start coverage_end r =
     (ap_is_current r = Some True
      \<and> (case ap_appt_date r of None \<Rightarrow> False | Some d \<Rightarrow> coverage_start \<le> d)
      \<and> (case ap_appt_date r of None \<Rightarrow> False | Some d \<Rightarrow> d \<le> coverage_end)
      \<and> (case ap_last_seen_run_id r of None \<Rightarrow> True | Some x \<Rightarrow> x \<noteq> run_id))"

text \<open>
  \<open>mark_stale_in_window\<close>: the \<open>UPDATE\<close> over the table, returning the new table
  and \<open>cur.rowcount\<close>.
\<close>

definition mark_stale_in_window ::
  "'a appointment_scheme list \<Rightarrow> nat \<Rightarrow> string \<Rightarrow> int \<Rightarrow> int
     \<Rightarrow> 'a appointment_scheme list \<times> nat" where
  "mark_stale_in_window tbl now run_id coverage_start coverage_end =
     (map (\<lambda>r. if stale_where run_id coverage_start coverage_end r
               then r\<lparr>ap_is_current := Some False, ap_stale_at := Some now\<rparr> else r) tbl,
      length (filter (stale_where run_id coverage_start coverage_end) tbl))"

text \<open>
  The end of \<open>main\<close>: the window parsed from the file name, else the least and
  greatest date seen in the data; the pass runs only with the windowed columns and
  both bounds.
\<close>

definition staleness_pass ::
  "bool \<Rightarrow> int option \<times> int option \<Rightarrow> int option \<times> int option \<Rightarrow> string \<Rightarrow> nat
     \<Rightarrow> 'a appointment_scheme list \<Rightarrow> 'a appointment_scheme list \<times> nat" where
  "staleness_pass has_windowed_columns from_filename from_data run_id now tbl =
     (let coverage_start = (case fst from_filename of None \<Rightarrow> fst from_data | Some d \<Rightarrow> Some d);
          coverage_end = (case snd from_filename of None \<Rightarrow> snd from_data | Some d \<Rightarrow> Some d)
      in case (has_windowed_columns, coverage_start, coverage_end) of
           (True, Some cs, Some ce) \<Rightarrow> mark_stale_in_window tbl now run_id cs ce
         | _ \<Rightarrow> (tbl, 0))"

section \<open>Match candidates for the review queue\<close>

text \<open>
  \<open>generate_people_match_candidates.py\<close>. An \<open>Optional[str]\<close> is a
  \<open>string option\<close>, and \<open>truthy\<close> is Python's truth value of it.
\<close>

subsection \<open>Python floats\<close>

text \<open>
  A Python \<open>float\<close> is an IEEE 754 binary64 number; a finite one is modelled as the
  rational it denotes. \<open>fl x\<close> is the binary64 number nearest to the rational \<open>x\<close>,
  a tie going to the even significand (53 bits; the exponent is not bounded here, and
  every value of the scripts lies between \<open>2^-1022\<close> and \<open>2\<close>). A literal such as
  \<open>0.85\<close> is \<open>fl (85 / 100)\<close>, and \<open>a + b\<close>, \<open>a - b\<close>, \<open>a * b\<close>, \<open>a / b\<close> are
  the exact result rounded by \<open>fl\<close>; comparisons and \<open>max\<close> are exact.
\<close>

function bitlen :: "int \<Rightarrow> nat" where
  "bitlen n = (if n \<le> 0 then 0 else Suc (bitlen (n div 2)))"
  by pat_completeness auto
termination
  by (relation "measure nat") auto

definition pow2 :: "int \<Rightarrow> rat" where
  "pow2 e = (if 0 \<le> e then 2 ^ nat e else 1 / 2 ^ nat (- e))"

definition round_half_even :: "rat \<Rightarrow> int" where
  "round_half_even y =
     (let f = \<lfloor>y\<rfloor>; d = y - of_int f
      in if d < 1 / 2 then f else if 1 / 2 < d then f + 1
         else if even f then f else f + 1)"

definition fl :: "rat \<Rightarrow> rat" where
  "fl x =
     (if x = 0 then 0
      else let s = \<bar>x\<bar>;
               (a, b) = quotient_of s;
               k = int (bitlen a) - int (bitlen b);
               e = (if pow2 k \<le> s then k else k - 1);
               u = pow2 (e - 52)
           in sgn x * (of_int (round_half_even (s / u)) * u))"

text \<open>
  \<open>round(x, 3)\<close> of a float: the value of \<open>x\<close> rounded to three decimals, a tie
  going to the even digit, and the float nearest to that decimal.
\<close>

definition py_round3 :: "rat \<Rightarrow> rat" where
  "py_round3 x = fl (of_int (round_half_even (x * 1000)) / 1000)"

subsection \<open>Names and their similarity\<close>

definition truthy :: "string option \<Rightarrow> bool" where
  "truthy v = (case v of None \<Rightarrow> False | Some s \<Rightarrow> s \<noteq> [])"

definition normalize_name :: "string \<Rightarrow> string" where
  "normalize_name name = (if name = [] then [] else collapse_ws (strip (lower name)))"

text \<open>The inner loop of \<open>levenshtein_distance\<close>: one cell of \<open>current_row\<close> per \<open>c2\<close>.\<close>

fun lev_inner :: "char \<Rightarrow> nat list \<Rightarrow> nat list \<Rightarrow> string \<Rightarrow> nat \<Rightarrow> nat list" where
  "lev_inner c1 previous_row current_row [] j = current_row"
| "lev_inner c1 previous_row current_row (c2 # rest) j =
     (let insertions = previous_row ! (j + 1) + 1;
          deletions = current_row ! j + 1;
          substitutions = previous_row ! j + (if c1 \<noteq> c2 then 1 else 0)
      in lev_inner c1 previous_row
           (current_row @ [min insertions (min deletions substitutions)]) rest (j + 1))"

text \<open>The outer loop: one row per character \<open>c1\<close> of \<open>s1\<close>, at index \<open>i\<close>.\<close>

fun lev_outer :: "string \<Rightarrow> nat list \<Rightarrow> string \<Rightarrow> nat \<Rightarrow> nat list" where
  "lev_outer s2 previous_row [] i = previous_row"
| "lev_outer s2 previous_row (c1 # rest) i =
     lev_outer s2 (lev_inner c1 previous_row [i + 1] s2 0) rest (i + 1)"

function levenshtein_distance :: "string \<Rightarrow> string \<Rightarrow> nat" where
  "levenshtein_distance s1 s2 =
     (if length s1 < length s2 then levenshtein_distance s2 s1
      else if length s2 = 0 then length s1
      else last (lev_outer s2 [0..<length s2 + 1] s1 0))"
  by pat_completeness auto
termination
  by (relation "measure (\<lambda>(s1, s2). if length s1 < length s2 then 1 else 0)") auto

definition name_similarity :: "string \<Rightarrow> string \<Rightarrow> rat" where
  "name_similarity name1 name2 =
     (let n1 = normalize_name name1; n2 = normalize_name name2
      in if n1 = [] \<or> n2 = [] then 0
         else let max_len = max (length n1) (length n2)
              in if max_len = 0 then 0
                 else let distance = levenshtein_distance n1 n2
                      in max 0 (fl (1 - fl (of_nat distance / of_nat max_len))))"

subsection \<open>\<open>calculate_match\<close>\<close>

record source_record =
  sr_source_system :: string
  sr_source_record_id :: string
  sr_display_name :: string
  sr_email :: "string option"
  sr_phone :: "string option"
  sr_phone_normalized :: "string option"
  sr_address_display :: "string option"

record canonical_person =
  cp_person_id :: string
  cp_display_name :: string
  cp_email :: "string option"
  cp_phone :: "string option"
  cp_phone_normalized :: "string option"

record evidence =
  ev_matched_on :: "string list"
  ev_phone_match :: bool
  ev_email_match :: bool
  ev_name_similarity :: rat
  ev_tier :: nat
  ev_source_name :: string
  ev_source_email :: "string option"
  ev_source_phone :: "string option"

record match_candidate =
  mc_source_system :: string
  mc_source_record_id :: string
  mc_candidate_person_id :: "string option"
  mc_confidence :: rat
  mc_evidence :: evidence

text \<open>The three conditions \<open>calculate_match\<close> tests, in the source's order.\<close>

definition phone_exact :: "source_record \<Rightarrow> canonical_person \<Rightarrow> bool" where
  "phone_exact source person =
     (truthy (sr_phone_normalized source) \<and> truthy (cp_phone_normalized person)
      \<and> sr_phone_normalized source = cp_phone_normalized person
      \<and> 10 \<le> length (the (sr_phone_normalized source)))"

definition email_exact :: "source_record \<Rightarrow> canonical_person \<Rightarrow> bool" where
  "email_exact source person =
     (truthy (sr_email source) \<and> truthy (cp_email person)
      \<and> strip (lower (the (sr_email source))) = strip (lower (the (cp_email person))))"

definition area_code_match :: "source_record \<Rightarrow> canonical_person \<Rightarrow> bool" where
  "area_code_match source person =
     (truthy (sr_phone_normalized source) \<and> truthy (cp_phone_normalized person)
      \<and> 3 \<le> length (the (sr_phone_normalized source))
      \<and> 3 \<le> length (the (cp_phone_normalized person))
      \<and> take 3 (the (sr_phone_normalized source)) = take 3 (the (cp_phone_normalized person)))"

text \<open>
  The first half of \<open>calculate_match\<close>: the signals that fired (\<open>matched_on\<close>) and
  the confidence, before rounding. The source compares no address.
\<close>

definition match_signals :: "source_record \<Rightarrow> canonical_person \<Rightarrow> string list \<times> rat" where
  "match_signals source person =
     (let (m1, c1) = (if phone_exact source person
                      then ([''phone_normalized''], max 0 1) else ([], 0));
          (m2, c2) = (if email_exact source person
                      then (m1 @ [''email''], max c1 (fl (98 / 100))) else (m1, c1));
          name_sim = name_similarity (sr_display_name source) (cp_display_name person)
      in if fl (7 / 10) \<le> name_sim
         then (if area_code_match source person
               then (m2 @ [''name_fuzzy'', ''area_code''], max c2 (fl (fl (85 / 100) + fl (name_sim * fl (1 / 10)))))
               else (m2 @ [''name_fuzzy''], max c2 (fl (fl (50 / 100) + fl (name_sim * fl (3 / 10))))))
         else (m2, c2))"

text \<open>The tier expression of the evidence document.\<close>

definition tier_of :: "rat \<Rightarrow> nat" where
  "tier_of confidence =
     (if fl (95 / 100) \<le> confidence then 0
      else if fl (80 / 100) \<le> confidence then 1
      else if fl (50 / 100) \<le> confidence then 2 else 3)"

definition calculate_match :: "source_record \<Rightarrow> canonical_person \<Rightarrow> match_candidate option" where
  "calculate_match source person =
     (let (matched_on, confidence) = match_signals source person;
          name_sim = name_similarity (sr_display_name source) (cp_display_name person)
      in if matched_on = [] \<or> confidence < fl (40 / 100) then None
         else Some \<lparr>mc_source_system = sr_source_system source,
                    mc_source_record_id = sr_source_record_id source,
                    mc_candidate_person_id = Some (cp_person_id person),
                    mc_confidence = py_round3 confidence,
                    mc_evidence =
                      \<lparr>ev_matched_on = matched_on,
                       ev_phone_match = (''phone_normalized'' \<in> set matched_on),
                       ev_email_match = (''email'' \<in> set matched_on),
                       ev_name_similarity = py_round3 name_sim,
                       ev_tier = tier_of confidence,
                       ev_source_name = sr_display_name source,
                       ev_source_email = sr_email source,
                       ev_source_phone = sr_phone source\<rparr>\<rparr>)"

text \<open>
  \<open>generate_candidates_for_source\<close>: the matches in the order of the people, sorted
  by confidence descending (Python's sort is stable, also with \<open>reverse=True\<close>), the
  first \<open>max_candidates\<close> kept.
\<close>

definition MAX_CANDIDATES_PER_SOURCE :: nat where
  "MAX_CANDIDATES_PER_SOURCE = 5"

definition generate_candidates_for_source ::
  "source_record \<Rightarrow> canonical_person list \<Rightarrow> nat \<Rightarrow> match_candidate list" where
  "generate_candidates_for_source source canonical_people max_candidates =
     take max_candidates
       (sort_key (\<lambda>c. - mc_confidence c)
          (List.map_filter (calculate_match source) canonical_people))"

text \<open>
  A row of \<open>person_match_candidates\<close>. The unique key is the triple; a \<open>NULL\<close>
  person id conflicts with nothing.
\<close>

record candidate_row =
  cr_source_system :: string
  cr_source_record_id :: string
  cr_candidate_person_id :: "string option"
  cr_confidence :: rat
  cr_evidence :: evidence
  cr_status :: string

definition same_triple :: "match_candidate \<Rightarrow> candidate_row \<Rightarrow> bool" where
  "same_triple c r =
     (mc_candidate_person_id c \<noteq> None
      \<and> cr_source_system r = mc_source_system c
      \<and> cr_source_record_id r = mc_source_record_id c
      \<and> cr_candidate_person_id r = mc_candidate_person_id c)"

text \<open>
  The \<open>INSERT ... ON CONFLICT ... DO UPDATE\<close> of \<open>upsert_candidates\<close> for one
  candidate: the new table and \<open>(xmax = 0)\<close>, true for an insert.
\<close>

definition upsert_candidate_sql :: "candidate_row list \<Rightarrow> match_candidate \<Rightarrow> candidate_row list \<times> bool" where
  "upsert_candidate_sql tbl c =
     (if list_ex (same_triple c) tbl
      then (map (\<lambda>r. if same_triple c r
                      then r\<lparr>cr_confidence := max (cr_confidence r) (mc_confidence c),
                             cr_evidence := mc_evidence c\<rparr>
                      else r) tbl, False)
      else (tbl @ [\<lparr>cr_source_system = mc_source_system c,
                     cr_source_record_id = mc_source_record_id c,
                     cr_candidate_person_id = mc_candidate_person_id c,
                     cr_confidence = mc_confidence c,
                     cr_evidence = mc_evidence c,
                     cr_status = ''open''\<rparr>], True))"

text \<open>
  The loop of \<open>upsert_candidates\<close>. \<open>raises c\<close> says that the statement for \<open>c\<close>
  raises: the \<open>except\<close> branch counts the candidate as skipped and goes on.
\<close>

fun upsert_loop ::
  "(match_candidate \<Rightarrow> bool) \<Rightarrow> candidate_row list \<Rightarrow> nat \<Rightarrow> nat \<Rightarrow> match_candidate list
     \<Rightarrow> candidate_row list \<times> nat \<times> nat" where
  "upsert_loop raises tbl inserted skipped [] = (tbl, inserted, skipped)"
| "upsert_loop raises tbl inserted skipped (c # cs) =
     (if raises c then upsert_loop raises tbl inserted (skipped + 1) cs
      else let (tbl', ins) = upsert_candidate_sql tbl c
           in if ins then upsert_loop raises tbl' (inserted + 1) skipped cs
              else upsert_loop raises tbl' inserted (skipped + 1) cs)"

definition upsert_candidates ::
  "(match_candidate \<Rightarrow> bool) \<Rightarrow> candidate_row list \<Rightarrow> match_candidate list \<Rightarrow> bool
     \<Rightarrow> candidate_row list \<times> nat \<times> nat" where
  "upsert_candidates raises tbl candidates dry_run =
     (if dry_run then (tbl, length candidates, 0)
      else upsert_loop raises tbl 0 0 candidates)"

text \<open>Sample records for the match computation.\<close>

definition sample_source :: source_record where
  "sample_source = \<lparr>sr_source_system = ''clinichq'', sr_source_record_id = ''17'',
     sr_display_name = ''Ann Lee'', sr_email = None, sr_phone = Some ''(707) 555-1234'',
     sr_phone_normalized = Some ''7075551234'', sr_address_display = Some ''12 Main St''\<rparr>"

definition sample_person :: "string \<Rightarrow> canonical_person" where
  "sample_person name = \<lparr>cp_person_id = ''p1'', cp_display_name = name, cp_email = None,
     cp_phone = None, cp_phone_normalized = Some ''7075559999''\<rparr>"

definition sample_evidence :: "nat \<Rightarrow> evidence" where
  "sample_evidence t = \<lparr>ev_matched_on = [''name_fuzzy''], ev_phone_match = False,
     ev_email_match = False, ev_name_similarity = 1, ev_tier = t, ev_source_name = ''Ann Lee'',
     ev_source_email = None, ev_source_phone = None\<rparr>"

definition sample_row :: candidate_row where
  "sample_row = \<lparr>cr_source_system = ''clinichq'', cr_source_record_id = ''17'',
     cr_candidate_person_id = Some ''p1'', cr_confidence = 95 / 100,
     cr_evidence = sample_evidence 0, cr_status = ''open''\<rparr>"

definition sample_candidate :: match_candidate where
  "sample_candidate = \<lparr>mc_source_system = ''clinichq'', mc_source_record_id = ''17'',
     mc_candidate_person_id = Some ''p1'', mc_confidence = 80 / 100,
     mc_evidence = sample_evidence 1\<rparr>"

section \<open>Ingest of trapping requests: rows and coercions\<close>

text \<open>
  \<open>ingest_airtable_trapping_requests.py\<close>. A row of \<open>csv.DictReader\<close> is a dict from
  the header names to the cells, kept here as an association list in header order with
  distinct keys; a cell of a short line is Python's \<open>None\<close>, whose \<open>str\<close> is
  \<open>"None"\<close>.
\<close>

datatype cell = Str string | NoneCell

definition py_str :: "cell \<Rightarrow> string" where
  "py_str v = (case v of Str s \<Rightarrow> s | NoneCell \<Rightarrow> ''None'')"

type_synonym row = "(string \<times> cell) list"

record csv_file =
  fieldnames :: "string list"
  csv_rows :: "row list"

text \<open>\<open>str(row[k]).strip()\<close> when \<open>k in row\<close>, else the empty string.\<close>

definition cell_text :: "row \<Rightarrow> string \<Rightarrow> string" where
  "cell_text row k = (case map_of row k of None \<Rightarrow> [] | Some v \<Rightarrow> strip (py_str v))"

definition normalize_csv_headers :: "string list \<Rightarrow> (string \<rightharpoonup> string)" where
  "normalize_csv_headers names = foldl (\<lambda>mapping orig. mapping(strip orig \<mapsto> orig)) Map.empty names"

fun get_field :: "row \<Rightarrow> (string \<rightharpoonup> string) \<Rightarrow> string list \<Rightarrow> string" where
  "get_field row header_map [] = []"
| "get_field row header_map (k # keys) =
     (if cell_text row k \<noteq> [] then cell_text row k
      else case header_map k of
             None \<Rightarrow> get_field row header_map keys
           | Some orig \<Rightarrow> if cell_text row orig \<noteq> [] then cell_text row orig
                          else get_field row header_map keys)"

definition is_blank_row :: "row \<Rightarrow> bool" where
  "is_blank_row row = list_all (\<lambda>v. strip (py_str v) = []) (map snd row)"

definition normalize_text :: "string \<Rightarrow> string" where
  "normalize_text s =
     norm_ws (filter (\<lambda>c. is_word c \<or> is_space c \<or> c = CHR ''#'' \<or> c = CHR ''/'' \<or> c = CHR ''-'')
                (lower (strip s)))"

definition normalize_phone :: "string \<Rightarrow> string" where
  "normalize_phone s =
     (let digits = filter is_digit s
      in if length digits = 11 \<and> take 1 digits = ''1'' then drop 1 digits else digits)"

definition status_mapping :: "(string \<times> string) list" where
  "status_mapping =
     [(''new'', ''new''), (''requested'', ''new''), (''needs attention'', ''needs_review''),
      (''need to re-book'', ''needs_review''), (''need to re book'', ''needs_review''),
      (''in progress'', ''in_progress''), (''partially complete'', ''in_progress''),
      (''revisit'', ''active''), (''complete/closed'', ''closed''),
      (''complete / closed'', ''closed''), (''complete'', ''closed''), (''closed'', ''closed''),
      (''hold'', ''paused''), (''referred elsewhere'', ''resolved''),
      (''duplicate request'', ''closed''), (''duplicate'', ''closed''), (''denied'', ''closed'')]"

definition allowed_statuses :: "string list" where
  "allowed_statuses = [''new'', ''needs_review'', ''active'', ''scheduled'', ''in_progress'',
     ''paused'', ''resolved'', ''closed'']"

definition is_lower_alnum :: "char \<Rightarrow> bool" where
  "is_lower_alnum c = (let n = ord c in (97 \<le> n \<and> n \<le> 122) \<or> (48 \<le> n \<and> n \<le> 57))"

definition coerce_request_status :: "string \<Rightarrow> string option" where
  "coerce_request_status raw =
     (let s = strip raw
      in if s = [] then None
         else let s0 = strip (collapse_ws (lower s))
              in case map_of status_mapping s0 of
                   Some v \<Rightarrow> Some v
                 | None \<Rightarrow>
                     let candidate = strip_chars (\<lambda>c. c = CHR ''_'')
                                       (sub_runs (\<lambda>c. \<not> is_lower_alnum c) (CHR ''_'') s0)
                     in if candidate \<in> set allowed_statuses then Some candidate else None)"

definition coerce_archive_reason :: "string \<Rightarrow> string option" where
  "coerce_archive_reason raw_status =
     (let s = lower (strip raw_status)
      in if s = [] then None
         else let s' = join '' '' (split_ws s)
              in if s' \<in> set [''duplicate request'', ''duplicate'', ''dup''] then Some ''duplicate''
                 else if s' \<in> set [''denied''] then Some ''denied''
                 else if s' \<in> set [''referred elsewhere'', ''referred'', ''refer elsewhere'']
                      then Some ''referred_elsewhere''
                 else None)"

text \<open>
  \<open>coerce_priority_smallint\<close>: the first run of digits read as a number, else the
  word scale.
\<close>

definition digits_value :: "string \<Rightarrow> int" where
  "digits_value ds = foldl (\<lambda>n c. 10 * n + (int (ord c) - 48)) 0 ds"

definition word_map :: "(string \<times> int) list" where
  "word_map = [(''low'', 1), (''medium'', 2), (''med'', 2), (''high'', 3), (''urgent'', 4),
     (''critical'', 5)]"

definition coerce_priority_smallint :: "string \<Rightarrow> int option" where
  "coerce_priority_smallint raw =
     (let s = strip raw
      in if s = [] then None
         else let m = takeWhile is_digit (dropWhile (\<lambda>c. \<not> is_digit c) s)
              in if m \<noteq> [] then Some (digits_value m)
                 else map_of word_map (strip (collapse_ws (lower s))))"

text \<open>
  \<open>build_rid_to_case_number_map\<close>: the pre-scan of the whole file, a later row with
  the same record id replacing an earlier one.
\<close>

definition rid_keys :: "string list" where
  "rid_keys = [''Record ID'', ''record_id'', ''Airtable Record ID'']"

definition case_keys :: "string list" where
  "case_keys = [''Case Number'', ''case_number'', ''Case #'', ''CaseNumber'']"

definition merge_keys :: "string list" where
  "merge_keys = [''LookupRecordIDPrimaryReq'', ''Lookup Record ID Primary Req'',
     ''Primary Request Record ID'', ''MergedIntoRecordID'']"

definition prescan_step :: "(string \<rightharpoonup> string) \<Rightarrow> (string \<rightharpoonup> string) \<Rightarrow> row \<Rightarrow> (string \<rightharpoonup> string)" where
  "prescan_step header_map mapping row =
     (let rid = get_field row header_map rid_keys;
          case_num = get_field row header_map case_keys
      in if rid \<noteq> [] \<and> case_num \<noteq> [] then mapping(rid \<mapsto> case_num) else mapping)"

definition build_rid_to_case_number_map :: "csv_file \<Rightarrow> (string \<rightharpoonup> string)" where
  "build_rid_to_case_number_map csv =
     (if fieldnames csv = [] then Map.empty
      else foldl (prescan_step (normalize_csv_headers (fieldnames csv))) Map.empty (csv_rows csv))"

section \<open>Ingest of trapping requests: the store\<close>

text \<open>
  A table is the list of its rows; \<open>db_columns\<close> is what \<open>table_columns\<close> reads from
  \<open>information_schema\<close>. A row id is a number the store issues (\<open>db_next_id\<close>);
  a nullable column is an option. Latitude and longitude are values of Python's
  \<open>float\<close>, which the scripts only carry: their type is the parameter \<open>'f\<close>.
  A statement that names a column its table does not have raises, which ends the run:
  the result \<open>Inl SqlError\<close>.
\<close>

datatype error = SqlError | GeocodeError | NoHeaders

record 'f address_row =
  ad_id :: nat
  ad_address_key :: string
  ad_raw_address :: "string option"
  ad_formatted_address :: "string option"
  ad_latitude :: "'f option"
  ad_longitude :: "'f option"
  ad_geom :: "('f \<times> 'f) option"

record place_row =
  pl_id :: nat
  pl_place_key :: string
  pl_display_name :: "string option"
  pl_address_id :: "nat option"

record person_row =
  pe_id :: nat
  pe_person_key :: string
  pe_first_name :: "string option"
  pe_last_name :: "string option"
  pe_email :: "string option"
  pe_phone :: "string option"
  pe_phone_normalized :: "string option"

record request_row =
  rq_id :: nat
  rq_case_number :: string
  rq_source_record_id :: "string option"
  rq_primary_place_id :: "nat option"
  rq_primary_contact_person_id :: "nat option"
  rq_status :: "string option"
  rq_priority :: "int option"
  rq_priority_label :: "string option"
  rq_notes :: "string option"
  rq_archive_reason :: "string option"
  rq_merged_into_case_number :: "string option"
  rq_merged_into_source_record_id :: "string option"
  rq_archived_at :: "nat option"

record party_row =
  pa_request_id :: nat
  pa_person_id :: nat
  pa_role :: "string option"

record note_row =
  no_request_id :: nat
  no_note_kind :: string
  no_note_body :: string
  no_note_key :: "string option"
  no_source_system :: string
  no_created_at :: nat
  no_updated_at :: "nat option"

record 'f db =
  db_addresses :: "'f address_row list"
  db_places :: "place_row list"
  db_people :: "person_row list"
  db_requests :: "request_row list"
  db_request_parties :: "party_row list"
  db_request_notes :: "note_row list"
  db_columns :: "string \<Rightarrow> string set"
  db_next_id :: nat

definition has_col :: "string set \<Rightarrow> string \<Rightarrow> bool" where
  "has_col cols name = (name \<in> cols)"

definition lookup_case_number_by_source_record_id :: "'f db \<Rightarrow> string \<Rightarrow> string option" where
  "lookup_case_number_by_source_record_id db source_record_id =
     (if source_record_id = [] then None
      else case find (\<lambda>r. rq_source_record_id r = Some source_record_id) (db_requests db) of
             None \<Rightarrow> None
           | Some r \<Rightarrow> Some (rq_case_number r))"

subsection \<open>\<open>upsert_address\<close>\<close>

definition address_conflict_update :: "'f address_row \<Rightarrow> 'f address_row \<Rightarrow> 'f address_row" where
  "address_conflict_update excluded r =
     r\<lparr>ad_raw_address := ad_raw_address excluded,
       ad_formatted_address := coalesce (ad_formatted_address excluded) (ad_formatted_address r),
       ad_latitude := coalesce (ad_latitude excluded) (ad_latitude r),
       ad_longitude := coalesce (ad_longitude excluded) (ad_longitude r)\<rparr>"

definition upsert_address ::
  "'f db \<Rightarrow> string \<Rightarrow> 'f option \<Rightarrow> 'f option \<Rightarrow> string option
     \<Rightarrow> error + ('f db \<times> nat option \<times> bool)" where
  "upsert_address db raw_addr lat lng formatted =
     (if raw_addr = [] then Inr (db, None, False)
      else
        let cols = db_columns db ''addresses'';
            address_key = ''addr:'' @ normalize_text raw_addr;
            geom = (case (lat, lng) of
                      (Some la, Some lo) \<Rightarrow>
                        if has_col cols ''geom'' \<or> has_col cols ''geog'' then Some (lo, la) else None
                    | _ \<Rightarrow> None);
            excluded = \<lparr>ad_id = db_next_id db, ad_address_key = address_key,
                         ad_raw_address = Some raw_addr,
                         ad_formatted_address = or_none_opt formatted,
                         ad_latitude = lat, ad_longitude = lng, ad_geom = geom\<rparr>
        in if cols \<inter> {''address_key'', ''raw_address'', ''formatted_address'', ''latitude'',
                         ''longitude''} = {} \<and> geom = None
           then Inr (db, None, False)
           else if \<not> {''id'', ''address_key'', ''raw_address'', ''formatted_address'', ''latitude'',
                        ''longitude''} \<subseteq> cols
           then Inl SqlError
           else case find (\<lambda>r. ad_address_key r = address_key) (db_addresses db) of
                  None \<Rightarrow>
                    Inr (db\<lparr>db_addresses := db_addresses db @ [excluded],
                             db_next_id := db_next_id db + 1\<rparr>,
                         Some (ad_id excluded), True)
                | Some old \<Rightarrow>
                    Inr (db\<lparr>db_addresses :=
                               map (\<lambda>r. if ad_address_key r = address_key
                                         then address_conflict_update excluded r else r)
                                 (db_addresses db)\<rparr>,
                         Some (ad_id old), False))"

subsection \<open>\<open>upsert_place\<close>\<close>

definition place_conflict_update :: "place_row \<Rightarrow> place_row \<Rightarrow> place_row" where
  "place_conflict_update excluded r =
     r\<lparr>pl_display_name := pl_display_name excluded,
       pl_address_id := coalesce (pl_address_id excluded) (pl_address_id r)\<rparr>"

definition place_key_of :: "string \<Rightarrow> string \<Rightarrow> string" where
  "place_key_of place_name raw_addr =
     (let base_key = (if raw_addr \<noteq> [] then ''addr:'' @ normalize_text raw_addr
                      else ''addr:unknown'');
          pname = (if place_name \<noteq> [] then normalize_text place_name else [])
      in ''place:'' @ (if pname \<noteq> [] then pname @ ''|'' @ base_key else base_key))"

definition upsert_place ::
  "'f db \<Rightarrow> nat option \<Rightarrow> string \<Rightarrow> string \<Rightarrow> error + ('f db \<times> nat option \<times> bool)" where
  "upsert_place db address_id place_name raw_addr =
     (if raw_addr = [] \<and> place_name = [] then Inr (db, None, False)
      else
        let cols = db_columns db ''places'';
            place_key = place_key_of place_name raw_addr;
            excluded = \<lparr>pl_id = db_next_id db, pl_place_key = place_key,
                         pl_display_name = Some (if place_name \<noteq> [] then place_name else raw_addr),
                         pl_address_id = address_id\<rparr>
        in if \<not> {''id'', ''place_key'', ''display_name'', ''address_id''} \<subseteq> cols
           then Inl SqlError
           else case find (\<lambda>r. pl_place_key r = place_key) (db_places db) of
                  None \<Rightarrow>
                    Inr (db\<lparr>db_places := db_places db @ [excluded],
                             db_next_id := db_next_id db + 1\<rparr>,
                         Some (pl_id excluded), True)
                | Some old \<Rightarrow>
                    Inr (db\<lparr>db_places :=
                               map (\<lambda>r. if pl_place_key r = place_key
                                         then place_conflict_update excluded r else r)
                                 (db_places db)\<rparr>,
                         Some (pl_id old), False))"

subsection \<open>\<open>upsert_person\<close>\<close>

text \<open>
  \<open>phone_normalized\<close> is computed in the store by the SQL function
  \<open>normalize_phone\<close>, which is not part of the scripts: it is the parameter
  \<open>sql_normalize_phone\<close>. The column is updated only when the table has it.
\<close>

definition person_conflict_update :: "bool \<Rightarrow> person_row \<Rightarrow> person_row \<Rightarrow> person_row" where
  "person_conflict_update has_phone_normalized excluded r =
     r\<lparr>pe_first_name := coalesce (pe_first_name excluded) (pe_first_name r),
       pe_last_name := coalesce (pe_last_name excluded) (pe_last_name r),
       pe_email := coalesce (pe_email excluded) (pe_email r),
       pe_phone := coalesce (pe_phone excluded) (pe_phone r),
       pe_phone_normalized :=
         (if has_phone_normalized
          then coalesce (pe_phone_normalized excluded) (pe_phone_normalized r)
          else pe_phone_normalized r)\<rparr>"

definition person_key_of :: "string \<Rightarrow> string \<Rightarrow> string \<Rightarrow> string \<Rightarrow> string option" where
  "person_key_of first_name last_name email phone =
     (let email_n = lower (strip email); phone_n = normalize_phone phone
      in if email_n \<noteq> [] then Some (''email:'' @ email_n)
         else if phone_n \<noteq> [] then Some (''phone:'' @ phone_n)
         else let name_n = normalize_text (first_name @ '' '' @ last_name)
              in if name_n = [] then None else Some (''name:'' @ name_n))"

definition upsert_person ::
  "(string \<Rightarrow> string option) \<Rightarrow> 'f db \<Rightarrow> string \<Rightarrow> string \<Rightarrow> string \<Rightarrow> string
     \<Rightarrow> error + ('f db \<times> nat option \<times> bool)" where
  "upsert_person sql_normalize_phone db first_name last_name email phone =
     (let cols = db_columns db ''people'';
          email_n = lower (strip email);
          phone_n = normalize_phone phone;
          phone_raw = strip phone
      in case person_key_of first_name last_name email phone of
           None \<Rightarrow> Inr (db, None, False)
         | Some person_key \<Rightarrow>
             let excluded = \<lparr>pe_id = db_next_id db, pe_person_key = person_key,
                              pe_first_name = or_none first_name, pe_last_name = or_none last_name,
                              pe_email = or_none email_n, pe_phone = or_none phone_n,
                              pe_phone_normalized =
                                (if has_col cols ''phone_normalized'' \<and> phone_raw \<noteq> []
                                 then sql_normalize_phone phone_raw else None)\<rparr>
             in if \<not> {''id'', ''person_key'', ''first_name'', ''last_name'', ''email'', ''phone''}
                       \<subseteq> cols
                then Inl SqlError
                else case find (\<lambda>r. pe_person_key r = person_key) (db_people db) of
                       None \<Rightarrow>
                         Inr (db\<lparr>db_people := db_people db @ [excluded],
                                  db_next_id := db_next_id db + 1\<rparr>,
                              Some (pe_id excluded), True)
                     | Some old \<Rightarrow>
                         Inr (db\<lparr>db_people :=
                                    map (\<lambda>r. if pe_person_key r = person_key
                                              then person_conflict_update
                                                     (has_col cols ''phone_normalized'') excluded r
                                              else r)
                                      (db_people db)\<rparr>,
                              Some (pe_id old), False))"

subsection \<open>\<open>upsert_request\<close>\<close>

text \<open>The arguments of \<open>upsert_request\<close>, in the order of its parameters.\<close>

record request_args =
  ra_case_number :: string
  ra_source_record_id :: string
  ra_primary_place_id :: "nat option"
  ra_primary_person_id :: "nat option"
  ra_status :: "string option"
  ra_priority :: "int option"
  ra_priority_label :: "string option"
  ra_notes :: string
  ra_archive_reason :: "string option"
  ra_merged_into_case_number :: "string option"
  ra_merged_into_source_record_id :: "string option"

text \<open>
  The row the \<open>INSERT\<close> proposes (\<open>excluded\<close>): a column the table lacks is not
  listed and stays \<open>NULL\<close>; \<open>archived_at\<close> is \<open>now()\<close> when an archive reason is
  given.
\<close>

definition request_excluded :: "string set \<Rightarrow> nat \<Rightarrow> nat \<Rightarrow> request_args \<Rightarrow> request_row" where
  "request_excluded cols now new_id a =
     \<lparr>rq_id = new_id,
      rq_case_number = ra_case_number a,
      rq_source_record_id = or_none (ra_source_record_id a),
      rq_primary_place_id = ra_primary_place_id a,
      rq_primary_contact_person_id = ra_primary_person_id a,
      rq_status = or_none_opt (ra_status a),
      rq_priority = (case ra_priority a of None \<Rightarrow> None
                     | Some n \<Rightarrow> if n = 0 then None else Some n),
      rq_priority_label = or_none_opt (ra_priority_label a),
      rq_notes = or_none (ra_notes a),
      rq_archive_reason =
        (if has_col cols ''archive_reason'' then or_none_opt (ra_archive_reason a) else None),
      rq_merged_into_case_number =
        (if has_col cols ''merged_into_case_number''
         then or_none_opt (ra_merged_into_case_number a) else None),
      rq_merged_into_source_record_id =
        (if has_col cols ''merged_into_source_record_id''
         then or_none_opt (ra_merged_into_source_record_id a) else None),
      rq_archived_at =
        (if truthy (ra_archive_reason a) \<and> has_col cols ''archived_at'' then Some now else None)\<rparr>"

definition request_conflict_update ::
  "string set \<Rightarrow> nat \<Rightarrow> request_row \<Rightarrow> request_row \<Rightarrow> request_row" where
  "request_conflict_update cols now excluded r =
     r\<lparr>rq_source_record_id := coalesce (rq_source_record_id excluded) (rq_source_record_id r),
       rq_primary_place_id := coalesce (rq_primary_place_id excluded) (rq_primary_place_id r),
       rq_primary_contact_person_id :=
         coalesce (rq_primary_contact_person_id excluded) (rq_primary_contact_person_id r),
       rq_status := coalesce (rq_status excluded) (rq_status r),
       rq_priority := coalesce (rq_priority excluded) (rq_priority r),
       rq_priority_label := coalesce (rq_priority_label excluded) (rq_priority_label r),
       rq_notes := coalesce (rq_notes excluded) (rq_notes r),
       rq_archive_reason :=
         (if has_col cols ''archive_reason''
          then coalesce (rq_archive_reason excluded) (rq_archive_reason r)
          else rq_archive_reason r),
       rq_merged_into_case_number :=
         (if has_col cols ''merged_into_case_number''
          then coalesce (rq_merged_into_case_number excluded) (rq_merged_into_case_number r)
          else rq_merged_into_case_number r),
       rq_merged_into_source_record_id :=
         (if has_col cols ''merged_into_source_record_id''
          then coalesce (rq_merged_into_source_record_id excluded)
                 (rq_merged_into_source_record_id r)
          else rq_merged_into_source_record_id r),
       rq_archived_at :=
         (if has_col cols ''archived_at''
          then coalesce (rq_archived_at r)
                 (if rq_archive_reason excluded \<noteq> None then Some now else None)
          else rq_archived_at r)\<rparr>"

definition request_required_columns :: "string set" where
  "request_required_columns = {''id'', ''case_number'', ''source_record_id'', ''primary_place_id'',
     ''primary_contact_person_id'', ''status'', ''priority'', ''priority_label'', ''notes''}"

definition upsert_request ::
  "'f db \<Rightarrow> nat \<Rightarrow> request_args \<Rightarrow> error + ('f db \<times> nat option \<times> bool)" where
  "upsert_request db now a =
     (let cols = db_columns db ''requests'';
          excluded = request_excluded cols now (db_next_id db) a
      in if \<not> request_required_columns \<subseteq> cols
            \<or> (has_col cols ''archived_at'' \<and> \<not> has_col cols ''archive_reason'')
         then Inl SqlError
         else case find (\<lambda>r. rq_case_number r = ra_case_number a) (db_requests db) of
                None \<Rightarrow>
                  Inr (db\<lparr>db_requests := db_requests db @ [excluded],
                           db_next_id := db_next_id db + 1\<rparr>,
                       Some (rq_id excluded), True)
              | Some old \<Rightarrow>
                  Inr (db\<lparr>db_requests :=
                             map (\<lambda>r. if rq_case_number r = ra_case_number a
                                       then request_conflict_update cols now excluded r else r)
                               (db_requests db)\<rparr>,
                       Some (rq_id old), False))"

subsection \<open>\<open>upsert_request_party\<close> and \<open>upsert_request_note\<close>\<close>

text \<open>
  Modelled from the spec: the unique constraint of \<open>request_parties\<close>, which is
  declared in the schema and not in the scripts. The spec: the linking row joining a
  case to a person with a role "is a no-op if the link already exists (no duplicate
  links)". \<open>ON CONFLICT DO NOTHING\<close> then inserts exactly when no equal link is stored.
\<close>

definition party_exists :: "party_row list \<Rightarrow> party_row \<Rightarrow> bool" where
  "party_exists tbl p = list_ex (\<lambda>r. r = p) tbl"

definition upsert_request_party ::
  "'f db \<Rightarrow> nat \<Rightarrow> nat \<Rightarrow> string \<Rightarrow> 'f db \<times> bool" where
  "upsert_request_party db request_id person_id role =
     (let cols = db_columns db ''request_parties''
      in if \<not> (has_col cols ''request_id'' \<and> has_col cols ''person_id'') then (db, False)
         else let p = \<lparr>pa_request_id = request_id, pa_person_id = person_id,
                        pa_role = (if has_col cols ''role'' then Some role else None)\<rparr>
              in if party_exists (db_request_parties db) p then (db, False)
                 else (db\<lparr>db_request_parties := db_request_parties db @ [p]\<rparr>, True))"

definition note_required_columns :: "string set" where
  "note_required_columns = {''request_id'', ''note_kind'', ''note_body'', ''note_key'',
     ''source_system'', ''created_at'', ''updated_at''}"

definition upsert_request_note ::
  "'f db \<Rightarrow> nat \<Rightarrow> nat \<Rightarrow> string \<Rightarrow> string \<Rightarrow> string
     \<Rightarrow> error + ('f db \<times> bool \<times> bool)" where
  "upsert_request_note db now request_id case_number note_kind note_body0 =
     (if note_body0 = [] then Inr (db, False, False)
      else
        let note_body = strip note_body0
        in if note_body = [] then Inr (db, False, False)
           else
             let cols = db_columns db ''request_notes''
             in if \<not> has_col cols ''note_key'' then Inr (db, False, False)
                else
                  let note_key = ''airtable_trapping_requests::'' @ case_number @ ''::'' @ note_kind
                  in if \<not> note_required_columns \<subseteq> cols then Inl SqlError
                     else if list_ex (\<lambda>r. no_note_key r = Some note_key) (db_request_notes db)
                     then Inr (db\<lparr>db_request_notes :=
                                     map (\<lambda>r. if no_note_key r = Some note_key
                                               then r\<lparr>no_note_body := note_body,
                                                      no_updated_at := Some now\<rparr>
                                               else r)
                                       (db_request_notes db)\<rparr>, False, True)
                     else Inr (db\<lparr>db_request_notes := db_request_notes db @
                                     [\<lparr>no_request_id = request_id, no_note_kind = note_kind,
                                       no_note_body = note_body, no_note_key = Some note_key,
                                       no_source_system = ''airtable'', no_created_at = now,
                                       no_updated_at = None\<rparr>]\<rparr>, True, False))"

section \<open>Ingest of trapping requests: \<open>main\<close>\<close>

record counters =
  addresses_inserted :: nat
  places_inserted :: nat
  people_inserted :: nat
  requests_inserted :: nat
  requests_updated :: nat
  request_parties_inserted :: nat
  notes_inserted :: nat
  notes_updated :: nat
  skipped_blank_rows :: nat
  skipped_missing_case_number :: nat
  skipped_dupe_case_in_file :: nat
  merged_links_set :: nat
  merged_case_resolved :: nat
  merged_case_unresolved :: nat

definition Counters :: counters where
  "Counters = \<lparr>addresses_inserted = 0, places_inserted = 0, people_inserted = 0,
     requests_inserted = 0, requests_updated = 0, request_parties_inserted = 0,
     notes_inserted = 0, notes_updated = 0, skipped_blank_rows = 0,
     skipped_missing_case_number = 0, skipped_dupe_case_in_file = 0, merged_links_set = 0,
     merged_case_resolved = 0, merged_case_unresolved = 0\<rparr>"

text \<open>The \<open>WARN\<close> lines \<open>main\<close> prints, each with its two values.\<close>

datatype warning =
  MergeTargetNotFound string string
| UnmappedStatus string string
| NonNumericPriority string string

text \<open>
  What the run is given besides the file and the store: the geocoding switch and call
  (\<open>None\<close> when the call raises), Python's \<open>float\<close> of a string (\<open>None\<close> when it
  raises), the SQL function \<open>normalize_phone\<close>, and \<open>now()\<close>.
\<close>

record 'f env =
  en_geocode_enabled :: bool
  en_geocode_address :: "string \<Rightarrow> ('f option \<times> 'f option \<times> string option) option"
  en_float :: "string \<Rightarrow> 'f option"
  en_sql_normalize_phone :: "string \<Rightarrow> string option"
  en_now :: nat

record 'f state =
  st_db :: "'f db"
  st_counters :: counters
  st_seen_case_numbers :: "string set"
  st_log :: "warning list"

definition parse_float :: "(string \<Rightarrow> 'f option) \<Rightarrow> string \<Rightarrow> 'f option" where
  "parse_float to_float s = (let s' = strip s in if s' = [] then None else to_float s')"

text \<open>
  The merge block of \<open>main\<close>: a merge target forces \<open>closed\<close> and \<open>duplicate\<close>, and
  its case number is looked up in the pre-scan map, then in the store.
\<close>

definition resolve_merge ::
  "(string \<rightharpoonup> string) \<Rightarrow> 'f db \<Rightarrow> string \<Rightarrow> string \<Rightarrow> string option \<Rightarrow> string option
     \<Rightarrow> counters \<Rightarrow> warning list
     \<Rightarrow> string option \<times> string option \<times> string option \<times> string option \<times> counters \<times> warning list" where
  "resolve_merge rid_to_case_number db case_number merged_target_rid status archive_reason
       cnt warnings =
     (case or_none merged_target_rid of
        None \<Rightarrow> (status, archive_reason, None, None, cnt, warnings)
      | Some target \<Rightarrow>
          let cnt1 = cnt\<lparr>merged_links_set := merged_links_set cnt + 1\<rparr>;
              resolved = (\<lambda>cn. (Some ''closed'', Some ''duplicate'', Some cn, Some target,
                                 cnt1\<lparr>merged_case_resolved := merged_case_resolved cnt1 + 1\<rparr>, warnings));
              unresolved = (Some ''closed'', Some ''duplicate'', None, Some target,
                            cnt1\<lparr>merged_case_unresolved := merged_case_unresolved cnt1 + 1\<rparr>,
                            warnings @ [MergeTargetNotFound target case_number])
          in case rid_to_case_number target of
               Some cn \<Rightarrow> resolved cn
             | None \<Rightarrow>
                 (case lookup_case_number_by_source_record_id db target of
                    None \<Rightarrow> unresolved
                  | Some db_case \<Rightarrow> if db_case \<noteq> [] then resolved db_case else unresolved))"

definition fallback_status :: "string option \<Rightarrow> string option \<Rightarrow> string option" where
  "fallback_status status archive_reason =
     (if truthy archive_reason \<and> \<not> truthy status
      then (if archive_reason = Some ''duplicate'' \<or> archive_reason = Some ''denied''
            then Some ''closed''
            else if archive_reason = Some ''referred_elsewhere'' then Some ''resolved''
            else status)
      else status)"

text \<open>The values \<open>main\<close> has read and computed for one row when it starts to write.\<close>

record 'f row_values =
  rv_case_number :: string
  rv_source_record_id :: string
  rv_raw_addr :: string
  rv_place_name :: string
  rv_first :: string
  rv_last :: string
  rv_email :: string
  rv_phone :: string
  rv_status :: "string option"
  rv_archive_reason :: "string option"
  rv_merged_into_case_number :: "string option"
  rv_merged_into_source_record_id :: "string option"
  rv_priority :: "int option"
  rv_priority_label :: "string option"
  rv_notes :: string
  rv_case_info_text :: string
  rv_internal_notes_text :: string
  rv_lat :: "'f option"
  rv_lng :: "'f option"
  rv_formatted :: "string option"

definition request_args_of :: "'f row_values \<Rightarrow> nat option \<Rightarrow> nat option \<Rightarrow> request_args" where
  "request_args_of v place_id person_id =
     \<lparr>ra_case_number = rv_case_number v,
      ra_source_record_id = rv_source_record_id v,
      ra_primary_place_id = place_id,
      ra_primary_person_id = person_id,
      ra_status = rv_status v,
      ra_priority = rv_priority v,
      ra_priority_label = rv_priority_label v,
      ra_notes = rv_notes v,
      ra_archive_reason = rv_archive_reason v,
      ra_merged_into_case_number = rv_merged_into_case_number v,
      ra_merged_into_source_record_id = rv_merged_into_source_record_id v\<rparr>"

text \<open>The two journal notes of a row, written when the request has an id.\<close>

definition write_note ::
  "'f env \<Rightarrow> 'f db \<times> counters \<Rightarrow> nat \<Rightarrow> string \<Rightarrow> string \<Rightarrow> string
     \<Rightarrow> error + ('f db \<times> counters)" where
  "write_note env dc req_id case_number note_kind body =
     (if body = [] then Inr dc
      else case upsert_request_note (fst dc) (en_now env) req_id case_number note_kind body of
             Inl e \<Rightarrow> Inl e
           | Inr (db', inserted, updated) \<Rightarrow>
               Inr (db',
                    if inserted then (snd dc)\<lparr>notes_inserted := notes_inserted (snd dc) + 1\<rparr>
                    else if updated then (snd dc)\<lparr>notes_updated := notes_updated (snd dc) + 1\<rparr>
                    else snd dc))"

definition write_notes ::
  "'f env \<Rightarrow> 'f db \<times> counters \<Rightarrow> nat option \<Rightarrow> 'f row_values \<Rightarrow> error + ('f db \<times> counters)" where
  "write_notes env dc req_id v =
     (case req_id of
        None \<Rightarrow> Inr dc
      | Some rid \<Rightarrow>
          (case write_note env dc rid (rv_case_number v) ''case_info'' (rv_case_info_text v) of
             Inl e \<Rightarrow> Inl e
           | Inr dc1 \<Rightarrow>
               write_note env dc1 rid (rv_case_number v) ''internal'' (rv_internal_notes_text v)))"

definition write_party :: "'f db \<times> counters \<Rightarrow> nat option \<Rightarrow> nat option \<Rightarrow> 'f db \<times> counters" where
  "write_party dc req_id person_id =
     (case (req_id, person_id) of
        (Some r, Some p) \<Rightarrow>
          (case upsert_request_party (fst dc) r p ''reporter'' of
             (db', inserted) \<Rightarrow>
               (db', if inserted
                     then (snd dc)\<lparr>request_parties_inserted := request_parties_inserted (snd dc) + 1\<rparr>
                     else snd dc))
      | _ \<Rightarrow> dc)"

text \<open>The upserts of one row, in the order of \<open>main\<close>, with the counters they bump.\<close>

definition write_row ::
  "'f env \<Rightarrow> 'f db \<Rightarrow> counters \<Rightarrow> 'f row_values \<Rightarrow> error + ('f db \<times> counters)" where
  "write_row env db cnt v =
     (case upsert_address db (rv_raw_addr v) (rv_lat v) (rv_lng v) (rv_formatted v) of
        Inl e \<Rightarrow> Inl e
      | Inr (db1, addr_id, addr_inserted) \<Rightarrow>
     (case upsert_place db1 addr_id (rv_place_name v) (rv_raw_addr v) of
        Inl e \<Rightarrow> Inl e
      | Inr (db2, place_id, place_inserted) \<Rightarrow>
     (case upsert_person (en_sql_normalize_phone env) db2 (rv_first v) (rv_last v) (rv_email v)
             (rv_phone v) of
        Inl e \<Rightarrow> Inl e
      | Inr (db3, person_id, person_inserted) \<Rightarrow>
     (case upsert_request db3 (en_now env) (request_args_of v place_id person_id) of
        Inl e \<Rightarrow> Inl e
      | Inr (db4, req_id, req_inserted) \<Rightarrow>
          let c1 = (if addr_inserted then cnt\<lparr>addresses_inserted := addresses_inserted cnt + 1\<rparr>
                    else cnt);
              c2 = (if place_inserted then c1\<lparr>places_inserted := places_inserted c1 + 1\<rparr>
                    else c1);
              c3 = (if person_inserted then c2\<lparr>people_inserted := people_inserted c2 + 1\<rparr>
                    else c2);
              c4 = (if req_inserted then c3\<lparr>requests_inserted := requests_inserted c3 + 1\<rparr>
                    else c3\<lparr>requests_updated := requests_updated c3 + 1\<rparr>)
          in write_notes env (write_party (db4, c4) req_id person_id) req_id v))))"

text \<open>
  The body of the loop of \<open>main\<close> past the three skips, in three steps. First the
  fields are read and status, archive reason and merge target settled, with the
  warnings; this reads the store (the lookup of a merge target) and writes nothing.
\<close>

definition read_row ::
  "'f env \<Rightarrow> (string \<rightharpoonup> string) \<Rightarrow> (string \<rightharpoonup> string) \<Rightarrow> 'f state \<Rightarrow> row \<Rightarrow> string
     \<Rightarrow> 'f row_values \<times> counters \<times> warning list" where
  "read_row env header_map rid_to_case_number st row case_number =
     (let source_record_id = get_field row header_map
            [''Record ID'', ''record_id'', ''Airtable Record ID'', ''source_record_id''];
          raw_addr = get_field row header_map
            [''Address'', ''Primary Address'', ''address'', ''primary_address''];
          place_name = get_field row header_map
            [''Request Place Name'', ''Place Name'', ''place_name'', ''Location Name'',
             ''Colony Name''];
          first_name = get_field row header_map [''First Name'', ''first_name''];
          last_name = get_field row header_map [''Last Name'', ''last_name''];
          email = get_field row header_map
            [''Clean Email'', ''Email'', ''email'', ''Client Email (LK)''];
          phone = get_field row header_map
            [''Clean Phone'', ''Client Phone (LK)'', ''Business Phone'', ''Phone'', ''phone''];
          raw_status = get_field row header_map [''Case Status'', ''Status'', ''status''];
          merged_target_rid = get_field row header_map merge_keys;
          (status1, archive_reason, merged_into_case_number, merged_into_source_record_id,
           cnt1, log1) =
             resolve_merge rid_to_case_number (st_db st) case_number merged_target_rid
               (coerce_request_status raw_status) (coerce_archive_reason raw_status)
               (st_counters st) (st_log st);
          status = fallback_status status1 archive_reason;
          log2 = (if raw_status \<noteq> [] \<and> \<not> truthy status
                  then log1 @ [UnmappedStatus raw_status case_number] else log1);
          raw_priority = get_field row header_map
            [''Priority (Final Shown)'', ''Priority'', ''priority'', ''Intake Priority''];
          priority = coerce_priority_smallint raw_priority;
          log3 = (if raw_priority \<noteq> [] \<and> priority = None
                  then log2 @ [NonNumericPriority raw_priority case_number] else log2)
      in (\<lparr>rv_case_number = case_number,
           rv_source_record_id = source_record_id,
           rv_raw_addr = raw_addr,
           rv_place_name = place_name,
           rv_first = first_name,
           rv_last = last_name,
           rv_email = email,
           rv_phone = phone,
           rv_status = status,
           rv_archive_reason = archive_reason,
           rv_merged_into_case_number = merged_into_case_number,
           rv_merged_into_source_record_id = merged_into_source_record_id,
           rv_priority = priority,
           rv_priority_label = or_none raw_priority,
           rv_notes = get_field row header_map
             [''Internal Notes'', ''Notes'', ''notes'', ''internal_notes''],
           rv_case_info_text = get_field row header_map [''Case Info''],
           rv_internal_notes_text = get_field row header_map [''Internal Notes''],
           rv_lat = parse_float (en_float env)
                      (get_field row header_map [''Latitude'', ''lat'', ''latitude'']),
           rv_lng = parse_float (en_float env)
                      (get_field row header_map [''Longitude'', ''lng'', ''longitude'']),
           rv_formatted = None\<rparr>, cnt1, log3))"

text \<open>Then the address is geocoded when that is switched on and a coordinate is missing.\<close>

definition geocode_row :: "'f env \<Rightarrow> 'f row_values \<Rightarrow> error + 'f row_values" where
  "geocode_row env v =
     (if rv_raw_addr v \<noteq> [] \<and> (rv_lat v = None \<or> rv_lng v = None) \<and> en_geocode_enabled env
      then (case en_geocode_address env (rv_raw_addr v) of
              None \<Rightarrow> Inl GeocodeError
            | Some (glat, glng, gfmt) \<Rightarrow>
                Inr (v\<lparr>rv_lat := (if rv_lat v \<noteq> None then rv_lat v else glat),
                       rv_lng := (if rv_lng v \<noteq> None then rv_lng v else glng),
                       rv_formatted := gfmt\<rparr>))
      else Inr v)"

text \<open>Then the row is written.\<close>

definition ingest_row ::
  "'f env \<Rightarrow> (string \<rightharpoonup> string) \<Rightarrow> (string \<rightharpoonup> string) \<Rightarrow> 'f state \<Rightarrow> row \<Rightarrow> string
     \<Rightarrow> error + 'f state" where
  "ingest_row env header_map rid_to_case_number st row case_number =
     (case read_row env header_map rid_to_case_number st row case_number of
        (v, cnt1, log3) \<Rightarrow>
          (case geocode_row env v of
             Inl e \<Rightarrow> Inl e
           | Inr v' \<Rightarrow>
               (case write_row env (st_db st) cnt1 v' of
                  Inl e \<Rightarrow> Inl e
                | Inr (db', cnt') \<Rightarrow>
                    Inr (st\<lparr>st_db := db', st_counters := cnt', st_log := log3\<rparr>))))"

definition bump_skipped_blank :: "'f state \<Rightarrow> 'f state" where
  "bump_skipped_blank st =
     st\<lparr>st_counters := (st_counters st)\<lparr>skipped_blank_rows := skipped_blank_rows (st_counters st) + 1\<rparr>\<rparr>"

definition bump_skipped_missing :: "'f state \<Rightarrow> 'f state" where
  "bump_skipped_missing st =
     st\<lparr>st_counters := (st_counters st)\<lparr>skipped_missing_case_number :=
            skipped_missing_case_number (st_counters st) + 1\<rparr>\<rparr>"

definition bump_skipped_dupe :: "'f state \<Rightarrow> 'f state" where
  "bump_skipped_dupe st =
     st\<lparr>st_counters := (st_counters st)\<lparr>skipped_dupe_case_in_file :=
            skipped_dupe_case_in_file (st_counters st) + 1\<rparr>\<rparr>"

text \<open>One turn of the loop of \<open>main\<close>.\<close>

definition process_row ::
  "'f env \<Rightarrow> (string \<rightharpoonup> string) \<Rightarrow> (string \<rightharpoonup> string) \<Rightarrow> 'f state \<Rightarrow> row \<Rightarrow> error + 'f state" where
  "process_row env header_map rid_to_case_number st row =
     (if is_blank_row row then Inr (bump_skipped_blank st)
      else let case_number0 = get_field row header_map case_keys
           in if case_number0 = [] then Inr (bump_skipped_missing st)
              else let case_number = strip case_number0
                   in if case_number \<in> st_seen_case_numbers st then Inr (bump_skipped_dupe st)
                      else ingest_row env header_map rid_to_case_number
                             (st\<lparr>st_seen_case_numbers := insert case_number (st_seen_case_numbers st)\<rparr>)
                             row case_number)"

fun run_rows ::
  "'f env \<Rightarrow> (string \<rightharpoonup> string) \<Rightarrow> (string \<rightharpoonup> string) \<Rightarrow> 'f state \<Rightarrow> row list \<Rightarrow> error + 'f state" where
  "run_rows env header_map rid_to_case_number st [] = Inr st"
| "run_rows env header_map rid_to_case_number st (row # rows) =
     (case process_row env header_map rid_to_case_number st row of
        Inl e \<Rightarrow> Inl e
      | Inr st' \<Rightarrow> run_rows env header_map rid_to_case_number st' rows)"

text \<open>
  \<open>main\<close> from the pre-scan on: the map is built from the whole file, then the rows
  are processed in order against the store.
\<close>

definition main :: "'f env \<Rightarrow> csv_file \<Rightarrow> 'f db \<Rightarrow> error + 'f state" where
  "main env csv db =
     (let rid_to_case_number = build_rid_to_case_number_map csv
      in if fieldnames csv = [] then Inl NoHeaders
         else run_rows env (normalize_csv_headers (fieldnames csv)) rid_to_case_number
                \<lparr>st_db = db, st_counters = Counters, st_seen_case_numbers = {}, st_log = []\<rparr>
                (csv_rows csv))"

section \<open>Sample data\<close>

text \<open>A store with every column the scripts name, and no rows.\<close>

definition sample_columns :: "string \<Rightarrow> string set" where
  "sample_columns t =
     (if t = ''addresses'' then {''id'', ''address_key'', ''raw_address'', ''formatted_address'',
                                ''latitude'', ''longitude'', ''geom''}
      else if t = ''places'' then {''id'', ''place_key'', ''display_name'', ''address_id''}
      else if t = ''people'' then {''id'', ''person_key'', ''first_name'', ''last_name'', ''email'',
                                   ''phone'', ''phone_normalized''}
      else if t = ''requests'' then {''id'', ''case_number'', ''source_record_id'',
             ''primary_place_id'', ''primary_contact_person_id'', ''status'', ''priority'',
             ''priority_label'', ''notes'', ''archive_reason'', ''merged_into_case_number'',
             ''merged_into_source_record_id'', ''archived_at''}
      else if t = ''request_parties'' then {''request_id'', ''person_id'', ''role''}
      else if t = ''request_notes'' then {''request_id'', ''note_kind'', ''note_body'', ''note_key'',
             ''source_system'', ''created_at'', ''updated_at''}
      else {})"

definition sample_db :: "int db" where
  "sample_db = \<lparr>db_addresses = [], db_places = [], db_people = [], db_requests = [],
     db_request_parties = [], db_request_notes = [], db_columns = sample_columns,
     db_next_id = 1\<rparr>"

definition sample_env :: "int env" where
  "sample_env = \<lparr>en_geocode_enabled = False, en_geocode_address = (\<lambda>a. None),
     en_float = (\<lambda>s. None), en_sql_normalize_phone = (\<lambda>s. Some (normalize_phone s)),
     en_now = 1000\<rparr>"

text \<open>
  A file of four rows: a duplicate of a case that comes later in the file, that case,
  a second row with the first row's case number, and a duplicate of a record that is
  in neither the file nor the store.
\<close>

definition sample_fieldnames :: "string list" where
  "sample_fieldnames = [''Case Number'', ''Record ID '', ''Case Status'',
     ''LookupRecordIDPrimaryReq'', ''First Name'', ''Address'']"

definition sample_row1 :: row where
  "sample_row1 = [(''Case Number'', Str ''CASE-001''), (''Record ID '', Str ''R1''),
     (''Case Status'', Str ''In Progress''), (''LookupRecordIDPrimaryReq'', Str ''R9''),
     (''First Name'', Str ''Ann''), (''Address'', Str ''12 Main St'')]"

definition sample_row9 :: row where
  "sample_row9 = [(''Case Number'', Str ''CASE-042''), (''Record ID '', Str ''R9''),
     (''Case Status'', Str ''New''), (''LookupRecordIDPrimaryReq'', Str ''''),
     (''First Name'', Str ''Bo''), (''Address'', Str ''9 Oak Ave'')]"

definition sample_row_again :: row where
  "sample_row_again = [(''Case Number'', Str '' CASE-001''), (''Record ID '', Str ''R2''),
     (''Case Status'', Str ''Complete''), (''LookupRecordIDPrimaryReq'', Str ''''),
     (''First Name'', Str ''Cy''), (''Address'', Str ''1 Elm Rd'')]"

definition sample_row_dangling :: row where
  "sample_row_dangling = [(''Case Number'', Str ''CASE-007''), (''Record ID '', Str ''R7''),
     (''Case Status'', Str ''In Progress''), (''LookupRecordIDPrimaryReq'', Str ''R404''),
     (''First Name'', Str ''Di''), (''Address'', Str '''')]"

definition sample_csv :: csv_file where
  "sample_csv = \<lparr>fieldnames = sample_fieldnames,
     csv_rows = [sample_row1, sample_row9, sample_row_again, sample_row_dangling]\<rparr>"

definition sample_header_map :: "string \<rightharpoonup> string" where
  "sample_header_map = normalize_csv_headers sample_fieldnames"

definition sample_state :: "int state" where
  "sample_state = \<lparr>st_db = sample_db, st_counters = Counters, st_seen_case_numbers = {},
     st_log = []\<rparr>"

text \<open>The same file with a further row that repeats the record id of the second row.\<close>

definition sample_row9_twin :: row where
  "sample_row9_twin = [(''Case Number'', Str ''CASE-043''), (''Record ID '', Str ''R9''),
     (''Case Status'', Str ''New''), (''LookupRecordIDPrimaryReq'', Str ''''),
     (''First Name'', Str ''Bo''), (''Address'', Str ''9 Oak Ave'')]"

definition twin_csv :: csv_file where
  "twin_csv = \<lparr>fieldnames = sample_fieldnames,
     csv_rows = [sample_row1, sample_row9, sample_row9_twin]\<rparr>"

text \<open>
  The first two rows in a file whose record ids stand under the header
  \<open>source_record_id\<close>.
\<close>

definition srid_fieldnames :: "string list" where
  "srid_fieldnames = [''Case Number'', ''source_record_id'', ''Case Status'',
     ''LookupRecordIDPrimaryReq'', ''First Name'', ''Address'']"

definition srid_row1 :: row where
  "srid_row1 = [(''Case Number'', Str ''CASE-001''), (''source_record_id'', Str ''R1''),
     (''Case Status'', Str ''In Progress''), (''LookupRecordIDPrimaryReq'', Str ''R9''),
     (''First Name'', Str ''Ann''), (''Address'', Str ''12 Main St'')]"

definition srid_row9 :: row where
  "srid_row9 = [(''Case Number'', Str ''CASE-042''), (''source_record_id'', Str ''R9''),
     (''Case Status'', Str ''New''), (''LookupRecordIDPrimaryReq'', Str ''''),
     (''First Name'', Str ''Bo''), (''Address'', Str ''9 Oak Ave'')]"

definition srid_csv :: csv_file where
  "srid_csv = \<lparr>fieldnames = srid_fieldnames, csv_rows = [srid_row1, srid_row9]\<rparr>"

text \<open>
  The columns every statement of the run names without asking for them: with these
  no statement raises for a missing column.
\<close>

definition schema_ok :: "'f db \<Rightarrow> bool" where
  "schema_ok db =
     ({''id'', ''address_key'', ''raw_address'', ''formatted_address'', ''latitude'', ''longitude''}
        \<subseteq> db_columns db ''addresses''
      \<and> {''id'', ''place_key'', ''display_name'', ''address_id''} \<subseteq> db_columns db ''places''
      \<and> {''id'', ''person_key'', ''first_name'', ''last_name'', ''email'', ''phone''}
           \<subseteq> db_columns db ''people''
      \<and> request_required_columns \<subseteq> db_columns db ''requests''
      \<and> (has_col (db_columns db ''requests'') ''archive_reason''
           \<or> \<not> has_col (db_columns db ''requests'') ''archived_at'')
      \<and> note_required_columns \<subseteq> db_columns db ''request_notes'')"




section \<open>Theorems: windowed staleness\<close>

lemma stale_where_outside:
  "ap_appt_date r = Some d \<Longrightarrow> d < cs \<or> ce < d \<Longrightarrow> \<not> stale_where run_id cs ce r"
  by (auto simp: stale_where_def)

text \<open>
  Claim C4. A staleness pass with coverage window \<open>[coverage_start, coverage_end]\<close>
  keeps the table's length and leaves every stored appointment whose date lies outside
  the window exactly as it was, all columns included, whatever its run id and
  \<open>is_current\<close> are.
\<close>

theorem mark_stale_outside_window_unchanged:
  assumes "i < length tbl"
    and "ap_appt_date (tbl ! i) = Some d"
    and "d < coverage_start \<or> coverage_end < d"
  shows "length (fst (mark_stale_in_window tbl now run_id coverage_start coverage_end)) = length tbl
     \<and> fst (mark_stale_in_window tbl now run_id coverage_start coverage_end) ! i = tbl ! i"
  using assms stale_where_outside [of "tbl ! i" d coverage_start coverage_end run_id]
  by (simp add: mark_stale_in_window_def)

theorem mark_stale_outside_window_unchanged_witness:
  "(0::nat) < length [\<lparr>ap_source_pk = ''7'', ap_appt_date = Some 10, ap_last_seen_run_id = None,
        ap_is_current = Some True, ap_stale_at = None\<rparr>]
   \<and> fst (mark_stale_in_window
        [\<lparr>ap_source_pk = ''7'', ap_appt_date = Some 10, ap_last_seen_run_id = None,
          ap_is_current = Some True, ap_stale_at = None\<rparr>] 99 ''run'' 20 30) ! 0
     = \<lparr>ap_source_pk = ''7'', ap_appt_date = Some 10, ap_last_seen_run_id = None,
        ap_is_current = Some True, ap_stale_at = None\<rparr>"
  using mark_stale_outside_window_unchanged
    [of 0 "[\<lparr>ap_source_pk = ''7'', ap_appt_date = Some 10, ap_last_seen_run_id = None,
        ap_is_current = Some True, ap_stale_at = None\<rparr>]" 10 20 30 99 "''run''"]
  by simp

section \<open>Theorems: match candidates\<close>

lemma upsert_candidate_sql_conflict:
  assumes "i < length tbl" and "same_triple c (tbl ! i)"
  shows "upsert_candidate_sql tbl c =
     (map (\<lambda>r. if same_triple c r
                 then r\<lparr>cr_confidence := max (cr_confidence r) (mc_confidence c),
                        cr_evidence := mc_evidence c\<rparr>
                 else r) tbl, False)"
proof -
  have "tbl ! i \<in> set tbl" using assms(1) by simp
  then have "list_ex (same_triple c) tbl" using assms(2) by (auto simp: list_ex_iff)
  then show ?thesis by (simp add: upsert_candidate_sql_def)
qed

text \<open>
  Claim C5. When a candidate is generated again for a triple that is already stored
  (the statement does not raise and the run is not a dry run), the stored confidence
  becomes the greater of the stored and the new one, the evidence becomes the new one,
  no row is added, and the candidate counts as skipped, not inserted.
\<close>

theorem upsert_candidates_keeps_max:
  assumes "\<not> raises c" and "i < length tbl" and "same_triple c (tbl ! i)"
  shows "length (fst (upsert_candidates raises tbl [c] False)) = length tbl
     \<and> cr_confidence (fst (upsert_candidates raises tbl [c] False) ! i)
         = max (cr_confidence (tbl ! i)) (mc_confidence c)
     \<and> cr_evidence (fst (upsert_candidates raises tbl [c] False) ! i) = mc_evidence c
     \<and> snd (upsert_candidates raises tbl [c] False) = (0, 1)"
  using assms upsert_candidate_sql_conflict [OF assms(2,3)]
  by (simp add: upsert_candidates_def)

theorem upsert_candidates_keeps_max_witness:
  "cr_confidence (fst (upsert_candidates (\<lambda>c. False) [sample_row] [sample_candidate] False) ! 0)
     = 95 / 100
   \<and> cr_evidence (fst (upsert_candidates (\<lambda>c. False) [sample_row] [sample_candidate] False) ! 0)
     = sample_evidence 1"
proof -
  have h: "same_triple sample_candidate ([sample_row] ! 0)"
    by (simp add: same_triple_def sample_candidate_def sample_row_def)
  have m: "max (cr_confidence ([sample_row] ! 0)) (mc_confidence sample_candidate) = 95 / 100"
    by (simp add: sample_candidate_def sample_row_def)
  have e: "mc_evidence sample_candidate = sample_evidence 1"
    by (simp add: sample_candidate_def)
  from upsert_candidates_keeps_max [of "\<lambda>c. False" sample_candidate 0 "[sample_row]", OF _ _ h]
  show ?thesis using m e by simp
qed

text \<open>
  Claim C6, at the input where the code leaves the band. The source record and the
  person have the same name (similarity \<open>1.0\<close>) and phone numbers that agree in the
  area code only, so no tier-0 signal fires. \<open>calculate_match\<close> returns the confidence
  \<open>0.85 + 1.0 * 0.1\<close>, the float \<open>0.95\<close>, which is above the band that ends at
  \<open>0.94\<close>, and records tier \<open>0\<close>.
\<close>

theorem area_code_match_outside_band:
  "calculate_match sample_source (sample_person ''Ann Lee'') =
     Some \<lparr>mc_source_system = ''clinichq'', mc_source_record_id = ''17'',
            mc_candidate_person_id = Some ''p1'', mc_confidence = fl (95 / 100),
            mc_evidence =
              \<lparr>ev_matched_on = [''name_fuzzy'', ''area_code''], ev_phone_match = False,
               ev_email_match = False, ev_name_similarity = 1, ev_tier = 0,
               ev_source_name = ''Ann Lee'', ev_source_email = None,
               ev_source_phone = Some ''(707) 555-1234''\<rparr>\<rparr>
   \<and> \<not> fl (95 / 100) \<le> fl (94 / 100)
   \<and> \<not> phone_exact sample_source (sample_person ''Ann Lee'')
   \<and> \<not> email_exact sample_source (sample_person ''Ann Lee'')"
  by code_simp

section \<open>Theorems: the upserts of a trapping request\<close>

text \<open>Only \<open>upsert_request\<close> writes the table of requests.\<close>

lemma upsert_address_frame:
  "upsert_address db raw_addr lat lng formatted = Inr (db', x, y) \<Longrightarrow>
     db_requests db' = db_requests db \<and> db_columns db' = db_columns db"
  by (auto simp: upsert_address_def Let_def split: if_splits option.splits)

lemma upsert_place_frame:
  "upsert_place db address_id place_name raw_addr = Inr (db', x, y) \<Longrightarrow>
     db_requests db' = db_requests db \<and> db_columns db' = db_columns db"
  by (auto simp: upsert_place_def Let_def split: if_splits option.splits)

lemma upsert_person_frame:
  "upsert_person f db first_name last_name email phone = Inr (db', x, y) \<Longrightarrow>
     db_requests db' = db_requests db \<and> db_columns db' = db_columns db"
  by (auto simp: upsert_person_def Let_def split: if_splits option.splits)

lemma upsert_request_party_frame:
  "db_requests (fst (upsert_request_party db r p role)) = db_requests db"
  by (simp add: upsert_request_party_def Let_def)

lemma write_party_frame:
  "db_requests (fst (write_party dc req_id person_id)) = db_requests (fst dc)"
  by (auto simp: write_party_def upsert_request_party_def Let_def split: option.splits prod.splits)

lemma upsert_request_note_frame:
  "upsert_request_note db now r c k b = Inr (db', x, y) \<Longrightarrow> db_requests db' = db_requests db"
  by (auto simp: upsert_request_note_def Let_def split: if_splits)

lemma write_note_frame:
  "write_note env dc r c k b = Inr dc' \<Longrightarrow> db_requests (fst dc') = db_requests (fst dc)"
  by (auto simp: write_note_def split: if_splits sum.splits dest: upsert_request_note_frame)

lemma write_notes_frame:
  "write_notes env dc req_id v = Inr dc' \<Longrightarrow> db_requests (fst dc') = db_requests (fst dc)"
  by (auto simp: write_notes_def split: option.splits sum.splits dest!: write_note_frame)

lemma request_conflict_update_key:
  "rq_case_number (request_conflict_update cols now e r) = rq_case_number r"
  by (simp add: request_conflict_update_def)

lemma upsert_request_table:
  assumes "upsert_request db now a = Inr (db', rid, ins)"
  shows "(find (\<lambda>r. rq_case_number r = ra_case_number a) (db_requests db) = None \<longrightarrow>
            db_requests db' = db_requests db @
              [request_excluded (db_columns db ''requests'') now (db_next_id db) a])
       \<and> (find (\<lambda>r. rq_case_number r = ra_case_number a) (db_requests db) \<noteq> None \<longrightarrow>
            db_requests db' =
              map (\<lambda>r. if rq_case_number r = ra_case_number a
                        then request_conflict_update (db_columns db ''requests'') now
                               (request_excluded (db_columns db ''requests'') now (db_next_id db) a) r
                        else r) (db_requests db))"
  using assms by (auto simp: upsert_request_def Let_def split: if_splits)

lemma upsert_request_rows:
  assumes "upsert_request db now a = Inr (db', rid, ins)"
    and "r' \<in> set (db_requests db')" and "rq_case_number r' = ra_case_number a"
  shows "r' = request_excluded (db_columns db ''requests'') now (db_next_id db) a
     \<or> (\<exists>old \<in> set (db_requests db). rq_case_number old = ra_case_number a \<and>
          r' = request_conflict_update (db_columns db ''requests'') now
                 (request_excluded (db_columns db ''requests'') now (db_next_id db) a) old)"
proof (cases "find (\<lambda>r. rq_case_number r = ra_case_number a) (db_requests db)")
  case None
  then have no: "\<forall>r \<in> set (db_requests db). rq_case_number r \<noteq> ra_case_number a"
    by (simp add: find_None_iff)
  from upsert_request_table [OF assms(1)] None have "db_requests db' = db_requests db @
      [request_excluded (db_columns db ''requests'') now (db_next_id db) a]"
    by simp
  with assms(2,3) no show ?thesis by auto
next
  case (Some x)
  let ?e = "request_excluded (db_columns db ''requests'') now (db_next_id db) a"
  let ?f = "\<lambda>r. if rq_case_number r = ra_case_number a
                then request_conflict_update (db_columns db ''requests'') now ?e r else r"
  from upsert_request_table [OF assms(1)] Some have "db_requests db' = map ?f (db_requests db)"
    by simp
  with assms(2) obtain old where o: "old \<in> set (db_requests db)" "r' = ?f old" by auto
  show ?thesis
  proof (cases "rq_case_number old = ra_case_number a")
    case True
    with o show ?thesis by auto
  next
    case False
    with o assms(3) show ?thesis by simp
  qed
qed

lemma upsert_request_has_row:
  assumes "upsert_request db now a = Inr (db', rid, ins)"
  shows "\<exists>r \<in> set (db_requests db'). rq_case_number r = ra_case_number a"
proof (cases "find (\<lambda>r. rq_case_number r = ra_case_number a) (db_requests db)")
  case None
  from upsert_request_table [OF assms] None have "db_requests db' = db_requests db @
      [request_excluded (db_columns db ''requests'') now (db_next_id db) a]"
    by simp
  then show ?thesis by (simp add: request_excluded_def)
next
  case (Some old)
  let ?e = "request_excluded (db_columns db ''requests'') now (db_next_id db) a"
  let ?f = "\<lambda>r. if rq_case_number r = ra_case_number a
                then request_conflict_update (db_columns db ''requests'') now ?e r else r"
  from Some have o: "old \<in> set (db_requests db)" "rq_case_number old = ra_case_number a"
    by (auto simp: find_Some_iff)
  from upsert_request_table [OF assms] Some have eq: "db_requests db' = map ?f (db_requests db)"
    by simp
  from o(1) have "?f old \<in> ?f ` set (db_requests db)" by (rule imageI)
  then have "?f old \<in> set (db_requests db')" by (simp only: eq set_map)
  moreover have "rq_case_number (?f old) = ra_case_number a"
    using o(2) by (simp add: request_conflict_update_key)
  ultimately show ?thesis by blast
qed

lemma write_row_requests:
  assumes "write_row env (db :: 'f db) cnt v = Inr (db', cnt')"
  obtains db3 :: "'f db" and place_id person_id db4 rid ins where
    "db_requests db3 = db_requests db" and "db_columns db3 = db_columns db"
    and "upsert_request db3 (en_now env) (request_args_of v place_id person_id) = Inr (db4, rid, ins)"
    and "db_requests db' = db_requests db4"
proof -
  from assms obtain db1 addr_id ai db2 place_id pli db3 person_id pei db4 rid ins c where
    s: "upsert_address db (rv_raw_addr v) (rv_lat v) (rv_lng v) (rv_formatted v) = Inr (db1, addr_id, ai)"
       "upsert_place db1 addr_id (rv_place_name v) (rv_raw_addr v) = Inr (db2, place_id, pli)"
       "upsert_person (en_sql_normalize_phone env) db2 (rv_first v) (rv_last v) (rv_email v) (rv_phone v)
          = Inr (db3, person_id, pei)"
       "upsert_request db3 (en_now env) (request_args_of v place_id person_id) = Inr (db4, rid, ins)"
       "write_notes env (write_party (db4, c) rid person_id) rid v = Inr (db', cnt')"
    by (auto simp: write_row_def Let_def split: sum.splits prod.splits)
  from upsert_address_frame [OF s(1)] upsert_place_frame [OF s(2)] upsert_person_frame [OF s(3)]
  have f3: "db_requests db3 = db_requests db" "db_columns db3 = db_columns db" by simp_all
  from write_notes_frame [OF s(5)] have f4: "db_requests db' = db_requests db4"
    by (simp add: write_party_frame)
  show thesis by (rule that [OF f3(1) f3(2) s(4) f4])
qed

section \<open>Theorems: merge targets\<close>

lemma resolve_merge_target:
  assumes "merged_target_rid \<noteq> []"
  shows "\<exists>mc cnt' log'. resolve_merge rm db c merged_target_rid s ar cnt lg
           = (Some ''closed'', Some ''duplicate'', mc, Some merged_target_rid, cnt', log')"
  using assms
  by (auto simp: resolve_merge_def or_none_def Let_def split: option.splits)

lemma read_row_merge_target:
  assumes "get_field row hm merge_keys \<noteq> []"
  shows "rv_status (fst (read_row env hm rm st row c)) = Some ''closed''
     \<and> rv_archive_reason (fst (read_row env hm rm st row c)) = Some ''duplicate''
     \<and> rv_merged_into_source_record_id (fst (read_row env hm rm st row c))
         = Some (get_field row hm merge_keys)
     \<and> rv_case_number (fst (read_row env hm rm st row c)) = c"
proof -
  from resolve_merge_target [OF assms] obtain mc cnt' log' where
    "resolve_merge rm (st_db st) c (get_field row hm merge_keys)
       (coerce_request_status (get_field row hm [''Case Status'', ''Status'', ''status'']))
       (coerce_archive_reason (get_field row hm [''Case Status'', ''Status'', ''status'']))
       (st_counters st) (st_log st)
     = (Some ''closed'', Some ''duplicate'', mc, Some (get_field row hm merge_keys), cnt', log')"
    by blast
  then show ?thesis
    by (simp add: read_row_def Let_def fallback_status_def truthy_def)
qed

lemma geocode_row_keeps:
  "geocode_row env v = Inr v' \<Longrightarrow>
     rv_status v' = rv_status v \<and> rv_archive_reason v' = rv_archive_reason v
     \<and> rv_merged_into_case_number v' = rv_merged_into_case_number v
     \<and> rv_merged_into_source_record_id v' = rv_merged_into_source_record_id v
     \<and> rv_case_number v' = rv_case_number v"
  by (auto simp: geocode_row_def split: if_splits option.splits)

lemma ingest_row_steps:
  assumes "ingest_row env hm rm (st :: 'f state) row c = Inr st'"
  obtains v' :: "'f row_values" where
    "geocode_row env (fst (read_row env hm rm st row c)) = Inr v'"
    and "write_row env (st_db st) (fst (snd (read_row env hm rm st row c))) v'
           = Inr (st_db st', st_counters st')"
    and "st_log st' = snd (snd (read_row env hm rm st row c))"
    and "st_seen_case_numbers st' = st_seen_case_numbers st"
  using assms
  by (auto simp: ingest_row_def split: prod.splits sum.splits)

lemma process_row_ingests:
  assumes "\<not> is_blank_row row" and "get_field row hm case_keys \<noteq> []"
    and "strip (get_field row hm case_keys) \<notin> st_seen_case_numbers st"
  shows "process_row env hm rm st row =
     ingest_row env hm rm
       (st\<lparr>st_seen_case_numbers := insert (strip (get_field row hm case_keys)) (st_seen_case_numbers st)\<rparr>)
       row (strip (get_field row hm case_keys))"
  using assms by (simp add: process_row_def Let_def)

lemma request_excluded_fields:
  "rq_case_number (request_excluded cols now n a) = ra_case_number a"
  "rq_status (request_excluded cols now n a) = or_none_opt (ra_status a)"
  "rq_archive_reason (request_excluded cols now n a)
     = (if has_col cols ''archive_reason'' then or_none_opt (ra_archive_reason a) else None)"
  "rq_merged_into_case_number (request_excluded cols now n a)
     = (if has_col cols ''merged_into_case_number''
        then or_none_opt (ra_merged_into_case_number a) else None)"
  "rq_merged_into_source_record_id (request_excluded cols now n a)
     = (if has_col cols ''merged_into_source_record_id''
        then or_none_opt (ra_merged_into_source_record_id a) else None)"
  by (simp_all add: request_excluded_def)

lemma request_conflict_update_fields:
  "rq_status (request_conflict_update cols now e r) = coalesce (rq_status e) (rq_status r)"
  "rq_archive_reason (request_conflict_update cols now e r)
     = (if has_col cols ''archive_reason'' then coalesce (rq_archive_reason e) (rq_archive_reason r)
        else rq_archive_reason r)"
  "rq_merged_into_case_number (request_conflict_update cols now e r)
     = (if has_col cols ''merged_into_case_number''
        then coalesce (rq_merged_into_case_number e) (rq_merged_into_case_number r)
        else rq_merged_into_case_number r)"
  "rq_merged_into_source_record_id (request_conflict_update cols now e r)
     = (if has_col cols ''merged_into_source_record_id''
        then coalesce (rq_merged_into_source_record_id e) (rq_merged_into_source_record_id r)
        else rq_merged_into_source_record_id r)"
  by (simp_all add: request_conflict_update_def)

lemma coalesce_Some: "coalesce (Some x) y = Some x"
  by (simp add: coalesce_def)

lemma coalesce_None: "coalesce None y = y"
  by (simp add: coalesce_def)

lemma or_none_opt_Some: "s \<noteq> [] \<Longrightarrow> or_none_opt (Some s) = Some s"
  by (simp add: or_none_opt_def or_none_def)

text \<open>
  Claim C1. Take a row that \<open>main\<close> writes (not blank, with a case number not yet
  seen in the file) and that carries a merge target, and let its turn of the loop end
  without an error. Then the store holds a request under the row's case number, and
  every request under that case number has status \<open>closed\<close> and, when the table has
  the column, archive reason \<open>duplicate\<close>, whatever the row's Case Status says and
  whether or not the target resolves.
\<close>

theorem merge_target_forces_closed_duplicate:
  assumes "\<not> is_blank_row row"
    and "get_field row hm case_keys \<noteq> []"
    and "strip (get_field row hm case_keys) \<notin> st_seen_case_numbers st"
    and "get_field row hm merge_keys \<noteq> []"
    and "process_row env hm rm (st :: 'f state) row = Inr st'"
  shows "(\<exists>r \<in> set (db_requests (st_db st')). rq_case_number r = strip (get_field row hm case_keys))
     \<and> (\<forall>r \<in> set (db_requests (st_db st')).
           rq_case_number r = strip (get_field row hm case_keys) \<longrightarrow>
             rq_status r = Some ''closed''
             \<and> (has_col (db_columns (st_db st) ''requests'') ''archive_reason'' \<longrightarrow>
                  rq_archive_reason r = Some ''duplicate''))"
proof -
  let ?c = "strip (get_field row hm case_keys)"
  let ?st = "st\<lparr>st_seen_case_numbers := insert ?c (st_seen_case_numbers st)\<rparr>"
  let ?v = "fst (read_row env hm rm ?st row ?c)"
  from assms have ing: "ingest_row env hm rm ?st row ?c = Inr st'"
    by (simp add: process_row_ingests)
  from ingest_row_steps [OF ing] obtain v' where
    g: "geocode_row env ?v = Inr v'"
    and w: "write_row env (st_db ?st) (fst (snd (read_row env hm rm ?st row ?c))) v'
              = Inr (st_db st', st_counters st')"
    by blast
  from read_row_merge_target [OF assms(4), of env rm ?st ?c] geocode_row_keeps [OF g]
  have v: "rv_status v' = Some ''closed''" "rv_archive_reason v' = Some ''duplicate''"
    "rv_case_number v' = ?c" by simp_all
  from write_row_requests [OF w] obtain db3 :: "'f db" and place_id person_id and db4 :: "'f db"
    and rid ins where
    u: "db_requests db3 = db_requests (st_db ?st)" "db_columns db3 = db_columns (st_db ?st)"
       "upsert_request db3 (en_now env) (request_args_of v' place_id person_id) = Inr (db4, rid, ins)"
       "db_requests (st_db st') = db_requests db4"
    by blast
  let ?a = "request_args_of v' place_id person_id"
  have a: "ra_case_number ?a = ?c" "ra_status ?a = Some ''closed''"
    "ra_archive_reason ?a = Some ''duplicate''"
    using v by (simp_all add: request_args_of_def)
  have ex: "\<exists>r \<in> set (db_requests (st_db st')). rq_case_number r = ?c"
    using upsert_request_has_row [OF u(3)] a(1) u(4) by simp
  have all: "rq_status r = Some ''closed''
       \<and> (has_col (db_columns (st_db st) ''requests'') ''archive_reason'' \<longrightarrow>
            rq_archive_reason r = Some ''duplicate'')"
    if r: "r \<in> set (db_requests (st_db st'))" "rq_case_number r = ?c" for r
  proof -
    from r u(4) a(1) have "r \<in> set (db_requests db4)" "rq_case_number r = ra_case_number ?a"
      by simp_all
    from upsert_request_rows [OF u(3) this]
    consider "r = request_excluded (db_columns db3 ''requests'') (en_now env) (db_next_id db3) ?a"
      | old where "r = request_conflict_update (db_columns db3 ''requests'') (en_now env)
                 (request_excluded (db_columns db3 ''requests'') (en_now env) (db_next_id db3) ?a) old"
      by blast
    then show ?thesis
    proof cases
      case 1
      then show ?thesis using a u(2)
        by (simp add: request_excluded_fields or_none_opt_Some)
    next
      case 2
      then show ?thesis using a u(2)
        by (simp add: request_excluded_fields request_conflict_update_fields or_none_opt_Some
              coalesce_Some)
    qed
  qed
  from ex all show ?thesis by blast
qed

text \<open>The theorem at the first row of the sample file: raw status \<open>In Progress\<close>, target \<open>R9\<close>.\<close>

theorem merge_target_forces_closed_duplicate_witness:
  "get_field sample_row1 sample_header_map [''Case Status'', ''Status'', ''status''] = ''In Progress''
   \<and> get_field sample_row1 sample_header_map merge_keys = ''R9''
   \<and> (\<exists>r \<in> set (db_requests (st_db (projr (process_row sample_env sample_header_map
           (build_rid_to_case_number_map sample_csv) sample_state sample_row1)))).
         rq_case_number r = ''CASE-001'' \<and> rq_status r = Some ''closed''
         \<and> rq_archive_reason r = Some ''duplicate'')"
proof -
  let ?p = "process_row sample_env sample_header_map (build_rid_to_case_number_map sample_csv)
              sample_state sample_row1"
  have h1: "\<not> is_blank_row sample_row1" by code_simp
  have c: "get_field sample_row1 sample_header_map case_keys = ''CASE-001''" by code_simp
  have sc: "strip ''CASE-001'' = ''CASE-001''" by code_simp
  have h2: "get_field sample_row1 sample_header_map case_keys \<noteq> []" by (simp add: c)
  have h3: "strip (get_field sample_row1 sample_header_map case_keys)
              \<notin> st_seen_case_numbers sample_state" by (simp add: sample_state_def)
  have m: "get_field sample_row1 sample_header_map merge_keys = ''R9''" by code_simp
  have h4: "get_field sample_row1 sample_header_map merge_keys \<noteq> []" by (simp add: m)
  have "\<not> isl ?p" by code_simp
  then have h5: "?p = Inr (projr ?p)" by simp
  have s: "get_field sample_row1 sample_header_map [''Case Status'', ''Status'', ''status'']
             = ''In Progress''" by code_simp
  have col: "has_col (db_columns (st_db sample_state) ''requests'') ''archive_reason''" by code_simp
  from merge_target_forces_closed_duplicate [OF h1 h2 h3 h4 h5] col
  show ?thesis unfolding c sc using s m by blast
qed

section \<open>Theorems: rows skipped as duplicates of a case number\<close>














section \<open>Theorems: the pre-scan map\<close>

text \<open>
  Claim C2, at a file whose record ids stand under the header \<open>source_record_id\<close>.
  \<open>main\<close> reads the record id of a row under four headers, the last of them
  \<open>source_record_id\<close>; \<open>build_rid_to_case_number_map\<close> reads it under the first three
  only. In this file the second row has record id \<open>R9\<close> and case number \<open>CASE-042\<close>,
  and the first row names \<open>R9\<close> as its merge target. The map of the pre-scan has no
  entry for \<open>R9\<close>; the run of \<open>main\<close> looks the target up in the store, where the
  second row is not yet written, logs the warning, and stores the first row with no
  \<open>merged_into_case_number\<close>, although it stores \<open>R9\<close> as the record id of the
  second row.
\<close>

theorem forward_reference_under_source_record_id:
  "get_field srid_row9 (normalize_csv_headers (fieldnames srid_csv))
      [''Record ID'', ''record_id'', ''Airtable Record ID'', ''source_record_id''] = ''R9''
   \<and> get_field srid_row9 (normalize_csv_headers (fieldnames srid_csv)) case_keys = ''CASE-042''
   \<and> get_field srid_row1 (normalize_csv_headers (fieldnames srid_csv)) merge_keys = ''R9''
   \<and> build_rid_to_case_number_map srid_csv ''R9'' = None
   \<and> \<not> isl (main sample_env srid_csv sample_db)
   \<and> st_log (projr (main sample_env srid_csv sample_db))
        = [MergeTargetNotFound ''R9'' ''CASE-001'']
   \<and> map rq_case_number (db_requests (st_db (projr (main sample_env srid_csv sample_db))))
        = [''CASE-001'', ''CASE-042'']
   \<and> map rq_source_record_id (db_requests (st_db (projr (main sample_env srid_csv sample_db))))
        = [Some ''R1'', Some ''R9'']
   \<and> map rq_merged_into_source_record_id
         (db_requests (st_db (projr (main sample_env srid_csv sample_db))))
        = [Some ''R9'', None]
   \<and> map rq_merged_into_case_number
         (db_requests (st_db (projr (main sample_env srid_csv sample_db))))
        = [None, None]"
  by code_simp

text \<open>
  The two rows under the header \<open>Record ID\<close>, followed by a third row that repeats the
  record id \<open>R9\<close> with the case number \<open>CASE-043\<close>: the assignment
  \<open>mapping[rid] = case_num\<close> keeps the last row, and the first row is stored as merged
  into \<open>CASE-043\<close>.
\<close>

lemma prescan_keeps_last_row_of_record_id:
  "build_rid_to_case_number_map twin_csv ''R9'' = Some ''CASE-043''
   \<and> \<not> isl (main sample_env twin_csv sample_db)
   \<and> map rq_case_number (db_requests (st_db (projr (main sample_env twin_csv sample_db))))
        = [''CASE-001'', ''CASE-042'', ''CASE-043'']
   \<and> map rq_merged_into_case_number
         (db_requests (st_db (projr (main sample_env twin_csv sample_db))))
        = [Some ''CASE-043'', None, None]"
  by code_simp

section \<open>Theorems: a run that does not fail\<close>

lemma upsert_address_total:
  assumes "schema_ok db"
  shows "\<exists>db' x y. upsert_address db a la lo f = Inr (db', x, y) \<and> db_columns db' = db_columns db"
  using assms
  by (auto simp: schema_ok_def upsert_address_def Let_def split: option.splits)

lemma upsert_place_total:
  assumes "schema_ok db"
  shows "\<exists>db' x y. upsert_place db aid pn a = Inr (db', x, y) \<and> db_columns db' = db_columns db"
  using assms
  by (auto simp: schema_ok_def upsert_place_def Let_def split: option.splits)

lemma upsert_person_total:
  assumes "schema_ok db"
  shows "\<exists>db' x y. upsert_person f db fnm lnm em ph = Inr (db', x, y) \<and> db_columns db' = db_columns db"
  using assms
  by (auto simp: schema_ok_def upsert_person_def Let_def split: option.splits)

lemma upsert_request_total:
  assumes "schema_ok db"
  shows "\<exists>db' x y. upsert_request db now a = Inr (db', x, y) \<and> db_columns db' = db_columns db"
  using assms
  by (auto simp: schema_ok_def upsert_request_def Let_def split: option.splits)

lemma upsert_request_note_total:
  assumes "schema_ok db"
  shows "\<exists>db' x y. upsert_request_note db now r c k b = Inr (db', x, y)
           \<and> db_columns db' = db_columns db"
  using assms
  by (auto simp: schema_ok_def upsert_request_note_def Let_def)

lemma schema_ok_columns: "db_columns db' = db_columns db \<Longrightarrow> schema_ok db \<Longrightarrow> schema_ok db'"
  by (simp add: schema_ok_def)

lemma write_party_columns:
  "db_columns (fst (write_party dc req_id person_id)) = db_columns (fst dc)"
  by (auto simp: write_party_def upsert_request_party_def Let_def split: option.splits prod.splits)

lemma write_note_total:
  assumes "schema_ok (fst dc)"
  shows "\<exists>dc'. write_note env dc r c k b = Inr dc' \<and> db_columns (fst dc') = db_columns (fst dc)"
proof (cases "b = []")
  case True
  then show ?thesis by (simp add: write_note_def)
next
  case False
  from upsert_request_note_total [OF assms, of "en_now env" r c k b]
  obtain db' x y where "upsert_request_note (fst dc) (en_now env) r c k b = Inr (db', x, y)"
    "db_columns db' = db_columns (fst dc)" by blast
  with False show ?thesis by (simp add: write_note_def)
qed

lemma write_notes_total:
  assumes "schema_ok (fst dc)"
  shows "\<exists>dc'. write_notes env dc req_id v = Inr dc'"
proof (cases req_id)
  case None
  then show ?thesis by (simp add: write_notes_def)
next
  case (Some rid)
  from write_note_total [OF assms, of env rid "rv_case_number v" "''case_info''" "rv_case_info_text v"]
  obtain dc1 where 1: "write_note env dc rid (rv_case_number v) ''case_info'' (rv_case_info_text v) = Inr dc1"
    "db_columns (fst dc1) = db_columns (fst dc)" by blast
  then have "schema_ok (fst dc1)" using assms by (auto intro: schema_ok_columns)
  from write_note_total [OF this, of env rid "rv_case_number v" "''internal''" "rv_internal_notes_text v"]
  obtain dc2 where "write_note env dc1 rid (rv_case_number v) ''internal'' (rv_internal_notes_text v) = Inr dc2"
    by blast
  with 1 Some show ?thesis by (simp add: write_notes_def)
qed

lemma write_row_total:
  assumes "schema_ok (db :: 'f db)"
  shows "\<exists>db' cnt'. write_row env db cnt v = Inr (db', cnt')"
proof -
  from upsert_address_total [OF assms, of "rv_raw_addr v" "rv_lat v" "rv_lng v" "rv_formatted v"]
  obtain db1 :: "'f db" and addr_id ai where
    1: "upsert_address db (rv_raw_addr v) (rv_lat v) (rv_lng v) (rv_formatted v) = Inr (db1, addr_id, ai)"
    and c1: "db_columns db1 = db_columns db" by blast
  have ok1: "schema_ok db1" by (rule schema_ok_columns [OF c1 assms])
  from upsert_place_total [OF ok1, of addr_id "rv_place_name v" "rv_raw_addr v"]
  obtain db2 :: "'f db" and place_id pli where
    2: "upsert_place db1 addr_id (rv_place_name v) (rv_raw_addr v) = Inr (db2, place_id, pli)"
    and c2: "db_columns db2 = db_columns db1" by blast
  have ok2: "schema_ok db2" by (rule schema_ok_columns [OF c2 ok1])
  from upsert_person_total [OF ok2, of "en_sql_normalize_phone env" "rv_first v" "rv_last v"
      "rv_email v" "rv_phone v"]
  obtain db3 :: "'f db" and person_id pei where
    3: "upsert_person (en_sql_normalize_phone env) db2 (rv_first v) (rv_last v) (rv_email v)
          (rv_phone v) = Inr (db3, person_id, pei)"
    and c3: "db_columns db3 = db_columns db2" by blast
  have ok3: "schema_ok db3" by (rule schema_ok_columns [OF c3 ok2])
  from upsert_request_total [OF ok3, of "en_now env" "request_args_of v place_id person_id"]
  obtain db4 :: "'f db" and rid ins where
    4: "upsert_request db3 (en_now env) (request_args_of v place_id person_id) = Inr (db4, rid, ins)"
    and c4: "db_columns db4 = db_columns db3" by blast
  have ok4: "schema_ok db4" by (rule schema_ok_columns [OF c4 ok3])
  have ok5: "schema_ok (fst (write_party (db4, c) rid person_id))" for c
    using schema_ok_columns [OF write_party_columns [of "(db4, c)" rid person_id]] ok4 by simp
  from 1 2 3 4 obtain c where
    w: "write_row env db cnt v = write_notes env (write_party (db4, c) rid person_id) rid v"
    by (simp add: write_row_def Let_def)
  from write_notes_total [OF ok5 [of c], of env rid v] obtain dc' where
    "write_notes env (write_party (db4, c) rid person_id) rid v = Inr dc'" by blast
  with w have "write_row env db cnt v = Inr (fst dc', snd dc')" by simp
  then show ?thesis by blast
qed

section \<open>Theorems: a merge target that resolves nowhere\<close>

lemma read_row_seen:
  "read_row env hm rm (st\<lparr>st_seen_case_numbers := X\<rparr>) row c = read_row env hm rm st row c"
  by (simp add: read_row_def)

lemma geocode_row_total:
  assumes "en_geocode_enabled env \<longrightarrow> en_geocode_address env (rv_raw_addr v) \<noteq> None"
  shows "\<exists>v'. geocode_row env v = Inr v'"
  using assms by (auto simp: geocode_row_def split: option.splits)

lemma read_row_raw_addr:
  "rv_raw_addr (fst (read_row env hm rm st row c))
     = get_field row hm [''Address'', ''Primary Address'', ''address'', ''primary_address'']"
  by (simp add: read_row_def Let_def case_prod_beta)

lemma read_row_case_number: "rv_case_number (fst (read_row env hm rm st row c)) = c"
  by (simp add: read_row_def Let_def case_prod_beta)

lemma ingest_row_total:
  assumes "schema_ok (st_db (st :: 'f state))"
    and "en_geocode_enabled env \<longrightarrow>
           en_geocode_address env
             (get_field row hm [''Address'', ''Primary Address'', ''address'', ''primary_address''])
           \<noteq> None"
  shows "\<exists>st'. ingest_row env hm rm st row c = Inr st'"
proof -
  obtain v cnt1 log3 where r: "read_row env hm rm st row c = (v, cnt1, log3)"
    by (cases "read_row env hm rm st row c") auto
  then have "rv_raw_addr v
     = get_field row hm [''Address'', ''Primary Address'', ''address'', ''primary_address'']"
    using read_row_raw_addr [of env hm rm st row c] by simp
  with assms(2) geocode_row_total [of env v] obtain v' where g: "geocode_row env v = Inr v'"
    by auto
  from write_row_total [OF assms(1), of env cnt1 v'] obtain db' cnt' where
    "write_row env (st_db st) cnt1 v' = Inr (db', cnt')" by blast
  with r g show ?thesis by (simp add: ingest_row_def)
qed

lemma resolve_merge_dangling:
  assumes "t \<noteq> []" and "rm t = None"
    and "\<not> truthy (lookup_case_number_by_source_record_id db t)"
  shows "resolve_merge rm db c t s ar cnt lg =
     (Some ''closed'', Some ''duplicate'', None, Some t,
      cnt\<lparr>merged_links_set := merged_links_set cnt + 1,
          merged_case_unresolved := merged_case_unresolved cnt + 1\<rparr>,
      lg @ [MergeTargetNotFound t c])"
  using assms
  by (auto simp: resolve_merge_def or_none_def Let_def truthy_def split: option.splits)

lemma read_row_dangling:
  assumes "get_field row hm merge_keys \<noteq> []" and "rm (get_field row hm merge_keys) = None"
    and "\<not> truthy (lookup_case_number_by_source_record_id (st_db st) (get_field row hm merge_keys))"
  shows "rv_merged_into_case_number (fst (read_row env hm rm st row c)) = None
     \<and> MergeTargetNotFound (get_field row hm merge_keys) c
          \<in> set (snd (snd (read_row env hm rm st row c)))"
  by (simp add: read_row_def Let_def
        resolve_merge_dangling [of "get_field row hm merge_keys" rm "st_db st", OF assms])

text \<open>The requests a written row leaves under its case number.\<close>

lemma process_row_request:
  assumes "\<not> is_blank_row row"
    and "get_field row hm case_keys \<noteq> []"
    and "strip (get_field row hm case_keys) \<notin> st_seen_case_numbers st"
    and "process_row env hm rm (st :: 'f state) row = Inr st'"
  shows "\<exists>a n.
      ra_case_number a = strip (get_field row hm case_keys)
    \<and> ra_status a = rv_status (fst (read_row env hm rm st row (strip (get_field row hm case_keys))))
    \<and> ra_archive_reason a
           = rv_archive_reason (fst (read_row env hm rm st row (strip (get_field row hm case_keys))))
    \<and> ra_merged_into_case_number a
           = rv_merged_into_case_number
               (fst (read_row env hm rm st row (strip (get_field row hm case_keys))))
    \<and> ra_merged_into_source_record_id a
           = rv_merged_into_source_record_id
               (fst (read_row env hm rm st row (strip (get_field row hm case_keys))))
    \<and> (\<exists>r \<in> set (db_requests (st_db st')). rq_case_number r = ra_case_number a)
    \<and> (\<forall>r \<in> set (db_requests (st_db st')). rq_case_number r = ra_case_number a \<longrightarrow>
           r = request_excluded (db_columns (st_db st) ''requests'') (en_now env) n a
           \<or> (\<exists>old \<in> set (db_requests (st_db st)). rq_case_number old = ra_case_number a
                 \<and> r = request_conflict_update (db_columns (st_db st) ''requests'') (en_now env)
                         (request_excluded (db_columns (st_db st) ''requests'') (en_now env) n a) old))
    \<and> st_log st' = snd (snd (read_row env hm rm st row (strip (get_field row hm case_keys))))"
proof -
  let ?c = "strip (get_field row hm case_keys)"
  let ?st = "st\<lparr>st_seen_case_numbers := insert ?c (st_seen_case_numbers st)\<rparr>"
  let ?v = "fst (read_row env hm rm st row ?c)"
  from assms have ing: "ingest_row env hm rm ?st row ?c = Inr st'"
    by (simp add: process_row_ingests)
  from ingest_row_steps [OF ing] obtain v' :: "'f row_values" where
    g: "geocode_row env ?v = Inr v'"
    and w: "write_row env (st_db st) (fst (snd (read_row env hm rm st row ?c))) v'
              = Inr (st_db st', st_counters st')"
    and l: "st_log st' = snd (snd (read_row env hm rm st row ?c))"
    by (auto simp: read_row_seen)
  from write_row_requests [OF w] obtain db3 :: "'f db" and place_id person_id
      and db4 :: "'f db" and rid ins where
    u: "db_requests db3 = db_requests (st_db st)" "db_columns db3 = db_columns (st_db st)"
       "upsert_request db3 (en_now env) (request_args_of v' place_id person_id) = Inr (db4, rid, ins)"
       "db_requests (st_db st') = db_requests db4"
    by blast
  let ?a = "request_args_of v' place_id person_id"
  have a: "ra_case_number ?a = ?c" "ra_status ?a = rv_status ?v"
    "ra_archive_reason ?a = rv_archive_reason ?v"
    "ra_merged_into_case_number ?a = rv_merged_into_case_number ?v"
    "ra_merged_into_source_record_id ?a = rv_merged_into_source_record_id ?v"
    using geocode_row_keeps [OF g] read_row_case_number [of env hm rm st row ?c]
    by (simp_all add: request_args_of_def)
  have ex: "\<exists>r \<in> set (db_requests (st_db st')). rq_case_number r = ra_case_number ?a"
    using upsert_request_has_row [OF u(3)] u(4) by simp
  have all: "\<forall>r \<in> set (db_requests (st_db st')). rq_case_number r = ra_case_number ?a \<longrightarrow>
           r = request_excluded (db_columns (st_db st) ''requests'') (en_now env) (db_next_id db3) ?a
           \<or> (\<exists>old \<in> set (db_requests (st_db st)). rq_case_number old = ra_case_number ?a
                 \<and> r = request_conflict_update (db_columns (st_db st) ''requests'') (en_now env)
                         (request_excluded (db_columns (st_db st) ''requests'') (en_now env)
                            (db_next_id db3) ?a) old)"
  proof (intro ballI impI)
    fix r
    assume r: "r \<in> set (db_requests (st_db st'))" "rq_case_number r = ra_case_number ?a"
    from r(1) have "r \<in> set (db_requests db4)" by (simp only: u(4))
    from upsert_request_rows [OF u(3) this r(2)]
    show "r = request_excluded (db_columns (st_db st) ''requests'') (en_now env) (db_next_id db3) ?a
           \<or> (\<exists>old \<in> set (db_requests (st_db st)). rq_case_number old = ra_case_number ?a
                 \<and> r = request_conflict_update (db_columns (st_db st) ''requests'') (en_now env)
                         (request_excluded (db_columns (st_db st) ''requests'') (en_now env)
                            (db_next_id db3) ?a) old)"
      by (simp only: u(1) u(2))
  qed
  show ?thesis
    apply (rule exI [of _ ?a])
    apply (rule exI [of _ "db_next_id db3"])
    apply (intro conjI)
    apply (rule a(1))
    apply (rule a(2))
    apply (rule a(3))
    apply (rule a(4))
    apply (rule a(5))
    apply (rule ex)
    apply (rule all)
    apply (rule l)
    done
qed

lemma process_row_total:
  assumes "\<not> is_blank_row row"
    and "get_field row hm case_keys \<noteq> []"
    and "strip (get_field row hm case_keys) \<notin> st_seen_case_numbers st"
    and "schema_ok (st_db (st :: 'f state))"
    and "en_geocode_enabled env \<longrightarrow>
           en_geocode_address env
             (get_field row hm [''Address'', ''Primary Address'', ''address'', ''primary_address''])
           \<noteq> None"
  shows "\<exists>st'. process_row env hm rm st row = Inr st'"
proof -
  let ?c = "strip (get_field row hm case_keys)"
  let ?st = "st\<lparr>st_seen_case_numbers := insert ?c (st_seen_case_numbers st)\<rparr>"
  have "schema_ok (st_db ?st)" using assms(4) by simp
  from ingest_row_total [OF this assms(5), of rm ?c]
  show ?thesis using assms(1-3) by (simp add: process_row_ingests)
qed

text \<open>
  Claim C9. Take a row that \<open>main\<close> writes (not blank, with a case number not yet
  seen) whose merge target is neither a key of the pre-scan map nor found by the
  lookup in the store, in a store that has the columns the statements name, with
  geocoding off or not raising for the row's address. Then the row's turn ends without
  an error; the warning for the target is in the log; the value passed on as
  \<open>merged_into_case_number\<close> is \<open>None\<close>; the store holds a request under the row's
  case number; and every request under it has status \<open>closed\<close>, has archive reason
  \<open>duplicate\<close> and the target as \<open>merged_into_source_record_id\<close> when the table has
  these columns, and has no \<open>merged_into_case_number\<close> unless a request stored before
  under that case number had one.
\<close>

theorem dangling_merge_target_is_ingested:
  assumes "\<not> is_blank_row row"
    and "get_field row hm case_keys \<noteq> []"
    and "strip (get_field row hm case_keys) \<notin> st_seen_case_numbers st"
    and "get_field row hm merge_keys \<noteq> []"
    and "rm (get_field row hm merge_keys) = None"
    and "\<not> truthy (lookup_case_number_by_source_record_id (st_db st) (get_field row hm merge_keys))"
    and "schema_ok (st_db (st :: 'f state))"
    and "en_geocode_enabled env \<longrightarrow>
           en_geocode_address env
             (get_field row hm [''Address'', ''Primary Address'', ''address'', ''primary_address''])
           \<noteq> None"
  shows "\<exists>st'. process_row env hm rm st row = Inr st'
      \<and> MergeTargetNotFound (get_field row hm merge_keys) (strip (get_field row hm case_keys))
            \<in> set (st_log st')
      \<and> rv_merged_into_case_number
           (fst (read_row env hm rm st row (strip (get_field row hm case_keys)))) = None
      \<and> rv_merged_into_source_record_id
           (fst (read_row env hm rm st row (strip (get_field row hm case_keys))))
           = Some (get_field row hm merge_keys)
      \<and> (\<exists>r \<in> set (db_requests (st_db st')).
             rq_case_number r = strip (get_field row hm case_keys))
      \<and> (\<forall>r \<in> set (db_requests (st_db st')).
             rq_case_number r = strip (get_field row hm case_keys) \<longrightarrow>
               rq_status r = Some ''closed''
               \<and> (has_col (db_columns (st_db st) ''requests'') ''archive_reason'' \<longrightarrow>
                    rq_archive_reason r = Some ''duplicate'')
               \<and> (has_col (db_columns (st_db st) ''requests'') ''merged_into_source_record_id'' \<longrightarrow>
                    rq_merged_into_source_record_id r = Some (get_field row hm merge_keys))
               \<and> ((\<forall>old \<in> set (db_requests (st_db st)).
                       rq_case_number old = strip (get_field row hm case_keys) \<longrightarrow>
                         rq_merged_into_case_number old = None) \<longrightarrow>
                    rq_merged_into_case_number r = None))"
proof -
  let ?c = "strip (get_field row hm case_keys)"
  let ?t = "get_field row hm merge_keys"
  let ?v = "fst (read_row env hm rm st row ?c)"
  let ?cols = "db_columns (st_db st) ''requests''"
  from process_row_total [OF assms(1-3) assms(7,8), of rm] obtain st' where
    p: "process_row env hm rm st row = Inr st'" by blast
  from read_row_merge_target [OF assms(4), of env rm st ?c]
  have v1: "rv_status ?v = Some ''closed''" "rv_archive_reason ?v = Some ''duplicate''"
    "rv_merged_into_source_record_id ?v = Some ?t" by simp_all
  from read_row_dangling [where rm = rm and row = row and hm = hm and st = st and env = env
      and c = ?c, OF assms(4-6)]
  have v2: "rv_merged_into_case_number ?v = None"
    and w: "MergeTargetNotFound ?t ?c \<in> set (snd (snd (read_row env hm rm st row ?c)))"
    by simp_all
  from process_row_request [OF assms(1-3) p] obtain a n where
    a: "ra_case_number a = ?c" "ra_status a = rv_status ?v"
      "ra_archive_reason a = rv_archive_reason ?v"
      "ra_merged_into_case_number a = rv_merged_into_case_number ?v"
      "ra_merged_into_source_record_id a = rv_merged_into_source_record_id ?v"
    and ex: "\<exists>r \<in> set (db_requests (st_db st')). rq_case_number r = ra_case_number a"
    and all: "\<forall>r \<in> set (db_requests (st_db st')). rq_case_number r = ra_case_number a \<longrightarrow>
           r = request_excluded ?cols (en_now env) n a
           \<or> (\<exists>old \<in> set (db_requests (st_db st)). rq_case_number old = ra_case_number a
                 \<and> r = request_conflict_update ?cols (en_now env)
                         (request_excluded ?cols (en_now env) n a) old)"
    and l: "st_log st' = snd (snd (read_row env hm rm st row ?c))"
    by blast
  have fields: "rq_status r = Some ''closed''
       \<and> (has_col ?cols ''archive_reason'' \<longrightarrow> rq_archive_reason r = Some ''duplicate'')
       \<and> (has_col ?cols ''merged_into_source_record_id'' \<longrightarrow>
            rq_merged_into_source_record_id r = Some ?t)
       \<and> ((\<forall>old \<in> set (db_requests (st_db st)). rq_case_number old = ?c \<longrightarrow>
               rq_merged_into_case_number old = None) \<longrightarrow>
            rq_merged_into_case_number r = None)"
    if r: "r \<in> set (db_requests (st_db st'))" "rq_case_number r = ?c" for r
  proof -
    have e: "rq_status (request_excluded ?cols (en_now env) n a) = Some ''closed''"
      "has_col ?cols ''archive_reason'' \<Longrightarrow>
         rq_archive_reason (request_excluded ?cols (en_now env) n a) = Some ''duplicate''"
      "has_col ?cols ''merged_into_source_record_id'' \<Longrightarrow>
         rq_merged_into_source_record_id (request_excluded ?cols (en_now env) n a) = Some ?t"
      "rq_merged_into_case_number (request_excluded ?cols (en_now env) n a) = None"
      using a v1 v2 assms(4)
      by (simp_all add: request_excluded_fields or_none_opt_def or_none_def)
    from all r a(1) consider "r = request_excluded ?cols (en_now env) n a"
      | old where "old \<in> set (db_requests (st_db st))" "rq_case_number old = ?c"
          "r = request_conflict_update ?cols (en_now env)
                 (request_excluded ?cols (en_now env) n a) old"
      by auto
    then show ?thesis
    proof cases
      case 1
      then show ?thesis using e by simp
    next
      case 2
      then show ?thesis using e
        by (auto simp: request_conflict_update_fields coalesce_Some coalesce_None)
    qed
  qed
  from p w l v2 v1(3) ex a(1) fields show ?thesis by auto
qed

text \<open>The theorem at the last row of the sample file, whose target \<open>R404\<close> is nowhere.\<close>

theorem dangling_merge_target_is_ingested_witness:
  "get_field sample_row_dangling sample_header_map merge_keys = ''R404''
   \<and> build_rid_to_case_number_map sample_csv ''R404'' = None
   \<and> (\<exists>st'. process_row sample_env sample_header_map (build_rid_to_case_number_map sample_csv)
                sample_state sample_row_dangling = Inr st'
          \<and> MergeTargetNotFound ''R404'' ''CASE-007'' \<in> set (st_log st')
          \<and> (\<exists>r \<in> set (db_requests (st_db st')).
                 rq_case_number r = ''CASE-007'' \<and> rq_status r = Some ''closed''
                 \<and> rq_archive_reason r = Some ''duplicate''
                 \<and> rq_merged_into_source_record_id r = Some ''R404''
                 \<and> rq_merged_into_case_number r = None))"
proof -
  let ?rm = "build_rid_to_case_number_map sample_csv"
  have h1: "\<not> is_blank_row sample_row_dangling" by code_simp
  have c: "get_field sample_row_dangling sample_header_map case_keys = ''CASE-007''" by code_simp
  have sc: "strip ''CASE-007'' = ''CASE-007''" by code_simp
  have h2: "get_field sample_row_dangling sample_header_map case_keys \<noteq> []" by (simp add: c)
  have h3: "strip (get_field sample_row_dangling sample_header_map case_keys)
              \<notin> st_seen_case_numbers sample_state" by (simp add: sample_state_def)
  have m: "get_field sample_row_dangling sample_header_map merge_keys = ''R404''" by code_simp
  have h4: "get_field sample_row_dangling sample_header_map merge_keys \<noteq> []" by (simp add: m)
  have n: "?rm ''R404'' = None" by code_simp
  have h5: "?rm (get_field sample_row_dangling sample_header_map merge_keys) = None"
    by (simp add: m n)
  have "\<not> truthy (lookup_case_number_by_source_record_id (st_db sample_state) ''R404'')"
    by code_simp
  then have h6: "\<not> truthy (lookup_case_number_by_source_record_id (st_db sample_state)
                     (get_field sample_row_dangling sample_header_map merge_keys))"
    by (simp add: m)
  have h7: "schema_ok (st_db sample_state)" by code_simp
  have h8: "en_geocode_enabled sample_env \<longrightarrow>
           en_geocode_address sample_env
             (get_field sample_row_dangling sample_header_map
                [''Address'', ''Primary Address'', ''address'', ''primary_address''])
           \<noteq> None" by (simp add: sample_env_def)
  have col: "has_col (db_columns (st_db sample_state) ''requests'') ''archive_reason''"
    "has_col (db_columns (st_db sample_state) ''requests'') ''merged_into_source_record_id''"
    by code_simp+
  have empty: "db_requests (st_db sample_state) = []"
    by (simp add: sample_state_def sample_db_def)
  from dangling_merge_target_is_ingested [where rm = ?rm and env = sample_env, OF h1 h2 h3 h4 h5 h6 h7 h8]
  obtain st' where
    p: "process_row sample_env sample_header_map ?rm sample_state sample_row_dangling = Inr st'"
    and w: "MergeTargetNotFound ''R404'' ''CASE-007'' \<in> set (st_log st')"
    and ex: "\<exists>r \<in> set (db_requests (st_db st')). rq_case_number r = ''CASE-007''"
    and all: "\<forall>r \<in> set (db_requests (st_db st')). rq_case_number r = ''CASE-007'' \<longrightarrow>
               rq_status r = Some ''closed''
               \<and> rq_archive_reason r = Some ''duplicate''
               \<and> rq_merged_into_source_record_id r = Some ''R404''
               \<and> rq_merged_into_case_number r = None"
    unfolding c sc m using col empty by auto
  from ex all have "\<exists>r \<in> set (db_requests (st_db st')).
                 rq_case_number r = ''CASE-007'' \<and> rq_status r = Some ''closed''
                 \<and> rq_archive_reason r = Some ''duplicate''
                 \<and> rq_merged_into_source_record_id r = Some ''R404''
                 \<and> rq_merged_into_case_number r = None" by blast
  with p w m n show ?thesis by blast
qed

section \<open>Theorems: the first row of a case number and the later ones\<close>



section \<open>Theorems: blank values never overwrite\<close>

lemma strip_chars_Nil: "strip_chars P s = [] \<longleftrightarrow> (\<forall>c \<in> set s. P c)"
proof
  assume "strip_chars P s = []"
  then have "dropWhile P (rev (dropWhile P s)) = []" by (simp add: strip_chars_def)
  then have "\<forall>c \<in> set (dropWhile P s). P c" by (simp add: dropWhile_eq_Nil_conv)
  then have "dropWhile P s = []"
    by (metis hd_dropWhile list.set_sel(1))
  then show "\<forall>c \<in> set s. P c" by (simp add: dropWhile_eq_Nil_conv)
next
  assume "\<forall>c \<in> set s. P c"
  then show "strip_chars P s = []"
    by (auto simp: strip_chars_def dropWhile_eq_Nil_conv dest: set_dropWhileD)
qed

lemma digit_not_space: "is_digit c \<Longrightarrow> \<not> is_space c"
  by (auto simp: is_digit_def is_space_def Let_def)

lemma blank_phone: "strip s = [] \<Longrightarrow> normalize_phone s = []"
proof -
  assume "strip s = []"
  then have "\<forall>c \<in> set s. is_space c" by (simp add: strip_def strip_chars_Nil)
  then have "filter is_digit s = []" using digit_not_space by (auto simp: filter_empty_conv)
  then show ?thesis by (simp add: normalize_phone_def)
qed









end
